theory Spec2Isabelle
  imports Complex_Main
begin

section \<open>Data model (types.ts)\<close>

text \<open>
  Strings are lists of characters; the model covers the code units below 256.
  A JavaScript \<open>number\<close> that the program only uses as an integer is an \<open>int\<close>;
  the progress percentage is a double, a \<open>real\<close> that the rounding of the runtime returns.
\<close>

datatype SimulationPhase = Setup | Config | Blueprint | Weaving | Complete

datatype strategy = gitflow | github_flow | trunk

record UserConfig =
  githubToken :: string
  username :: string
  targetRepo :: string
  startDate :: string
  endDate :: string
  techStack :: string
  intensity :: int
  strategy :: strategy
  includeLfs :: bool
  achievements :: "string list"

datatype event_type = commit | branch_t | merge | issue | pr | tag

record GitEvent =
  id_ev :: string
  date :: string
  type_ev :: event_type
  title :: string
  description :: string
  branch :: "string option"
  filesChanged :: "int option"
  author :: string
  tags :: "string list option"

datatype log_level = info | success | warning | error

record LogEntry =
  timestamp :: string
  level :: log_level
  message :: string

text \<open>What a \<open>throw\<close> carries: the constructor of the error and its message.\<close>

datatype js_error = Error string | SyntaxError string | RangeError string

section \<open>String operations of the runtime\<close>

definition strategy_str :: "strategy \<Rightarrow> string" where
  "strategy_str s = (case s of gitflow \<Rightarrow> ''gitflow'' | github_flow \<Rightarrow> ''github-flow'' | trunk \<Rightarrow> ''trunk'')"

definition type_str :: "event_type \<Rightarrow> string" where
  "type_str t = (case t of commit \<Rightarrow> ''commit'' | branch_t \<Rightarrow> ''branch'' | merge \<Rightarrow> ''merge''
     | issue \<Rightarrow> ''issue'' | pr \<Rightarrow> ''pr'' | tag \<Rightarrow> ''tag'')"

definition bool_str :: "bool \<Rightarrow> string" where
  "bool_str b = (if b then ''true'' else ''false'')"

definition digit_char :: "nat \<Rightarrow> char" where
  "digit_char d = (char_of (48 + d) :: char)"

fun string_of_nat :: "nat \<Rightarrow> string" where
  "string_of_nat n = (if n < 10 then [digit_char n] else string_of_nat (n div 10) @ [digit_char (n mod 10)])"

declare string_of_nat.simps [simp del]

definition string_of_int :: "int \<Rightarrow> string" where
  "string_of_int i = (if i < 0 then ''-'' @ string_of_nat (nat (- i)) else string_of_nat (nat i))"

text \<open>\<open>xs.join(sep)\<close>\<close>

fun join :: "string \<Rightarrow> string list \<Rightarrow> string" where
  "join sep [] = []"
| "join sep [x] = x"
| "join sep (x # y # ys) = x @ sep @ join sep (y # ys)"

text \<open>\<open>s.toUpperCase()\<close> on the letters a to z; the program applies it to the six kind names only.\<close>

definition upper_char :: "char \<Rightarrow> char" where
  "upper_char c = (let n = (of_char c :: nat) in if 97 \<le> n \<and> n \<le> 122 then char_of (n - 32) else c)"

definition toUpperCase :: "string \<Rightarrow> string" where
  "toUpperCase s = map upper_char s"

text \<open>
  \<open>s.replace(/pat/g, rep)\<close> for a pattern that is a literal text: the matches are found
  from left to right and do not overlap.
\<close>

function replace_g :: "string \<Rightarrow> string \<Rightarrow> string \<Rightarrow> string" where
  "replace_g pat rep [] = []"
| "replace_g pat rep (c # cs) =
     (if pat \<noteq> [] \<and> take (length pat) (c # cs) = pat
      then rep @ replace_g pat rep (drop (length pat - 1) cs)
      else c # replace_g pat rep cs)"
  by pat_completeness auto
termination
  by (relation "measure (\<lambda>(pat, rep, s). length s)") auto

text \<open>\<open>s.trim()\<close>: white space and line terminators among the code units below 256.\<close>

definition is_space :: "char \<Rightarrow> bool" where
  "is_space c = ((of_char c :: nat) \<in> {9, 10, 11, 12, 13, 32, 160})"

definition trim :: "string \<Rightarrow> string" where
  "trim s = rev (dropWhile is_space (rev (dropWhile is_space s)))"

section \<open>Numbers of the runtime\<close>

text \<open>
  A \<open>number\<close> is an IEEE 754 double. The finite doubles are reals, and an arithmetic
  operation returns the double nearest to the exact result, a tie going to the even
  significand. \<open>double\<close> is that rounding to 53 significant bits; it is the rounding
  of the language wherever the exponent stays in the normal range, as it does for every
  number the program computes. \<open>ilog2 x\<close> is the exponent \<open>e\<close> with \<open>2^e \<le> x < 2^(e+1)\<close>.
\<close>

function ilog2 :: "real \<Rightarrow> int" where
  "ilog2 x = (if x \<le> 0 then 0 else if x < 1 then ilog2 (2 * x) - 1
              else if 2 \<le> x then ilog2 (x / 2) + 1 else 0)"
  by pat_completeness auto
termination
proof (relation "measure (\<lambda>x. nat \<bar>\<lfloor>log 2 x\<rfloor>\<bar>)")
  show "wf (measure (\<lambda>x. nat \<bar>\<lfloor>log 2 x\<rfloor>\<bar>))" by simp
next
  fix x :: real
  assume "\<not> x \<le> 0" "x < 1"
  then have x: "0 < x" "x < 1" by auto
  then have "log 2 x < 0" by simp
  then have f: "\<lfloor>log 2 x\<rfloor> \<le> - 1" by (simp add: floor_le_iff)
  have "log 2 (2 * x) = 1 + log 2 x" using x by (simp add: log_mult)
  then have "\<lfloor>log 2 (2 * x)\<rfloor> = 1 + \<lfloor>log 2 x\<rfloor>" by simp
  with f show "(2 * x, x) \<in> measure (\<lambda>x. nat \<bar>\<lfloor>log 2 x\<rfloor>\<bar>)" by simp
next
  fix x :: real
  assume "\<not> x \<le> 0" "\<not> x < 1" "2 \<le> x"
  then have x: "2 \<le> x" by auto
  then have "1 \<le> log 2 x" by (simp add: le_log_iff)
  then have f: "1 \<le> \<lfloor>log 2 x\<rfloor>" by (simp add: le_floor_iff)
  have "log 2 (x / 2) = log 2 x - 1" using x by (simp add: log_divide)
  then have "\<lfloor>log 2 (x / 2)\<rfloor> = \<lfloor>log 2 x\<rfloor> - 1" by simp
  with f show "(x / 2, x) \<in> measure (\<lambda>x. nat \<bar>\<lfloor>log 2 x\<rfloor>\<bar>)" by simp
qed

declare ilog2.simps [simp del]

definition round_half_even :: "real \<Rightarrow> int" where
  "round_half_even r =
    (let f = \<lfloor>r\<rfloor>; d = r - of_int f
     in if d < 1 / 2 then f else if 1 / 2 < d then f + 1 else if even f then f else f + 1)"

definition double :: "real \<Rightarrow> real" where
  "double x =
    (if x \<le> 0 then (if x = 0 then 0 else
        - (of_int (round_half_even (- x * 2 powi (52 - ilog2 (- x)))) * 2 powi (ilog2 (- x) - 52)))
     else of_int (round_half_even (x * 2 powi (52 - ilog2 x))) * 2 powi (ilog2 x - 52))"

text \<open>\<open>a / b\<close> for a divisor that is not zero, and \<open>a * b\<close>.\<close>

definition fdiv :: "real \<Rightarrow> real \<Rightarrow> real" where
  "fdiv a b = double (a / b)"

definition fmul :: "real \<Rightarrow> real \<Rightarrow> real" where
  "fmul a b = double (a * b)"

section \<open>Dates of the runtime\<close>

text \<open>
  A time value is a number of milliseconds since the epoch, or NaN, which is \<open>None\<close> here.
  \<open>Date.parse\<close> accepts formats that depend on the engine, so it is a parameter of the
  model (see \<open>js_runtime\<close> below); \<open>TimeClip\<close> and \<open>toISOString\<close> are fixed by the
  language and are defined here.
\<close>

definition msPerDay :: int where
  "msPerDay = 86400000"

definition TimeClip :: "int option \<Rightarrow> int option" where
  "TimeClip t = (case t of None \<Rightarrow> None
     | Some v \<Rightarrow> if \<bar>v\<bar> > 8640000000000000 then None else Some v)"

text \<open>The calendar date (year, month, day) of a day number counted from 1970-01-01.\<close>

definition civil_from_days :: "int \<Rightarrow> int \<times> int \<times> int" where
  "civil_from_days z0 =
    (let z = z0 + 719468;
         era = z div 146097;
         doe = z - era * 146097;
         yoe = (doe - doe div 1460 + doe div 36524 - doe div 146096) div 365;
         y = yoe + era * 400;
         doy = doe - (365 * yoe + yoe div 4 - yoe div 100);
         mp = (5 * doy + 2) div 153;
         d = doy - (153 * mp + 2) div 5 + 1;
         m = (if mp < 10 then mp + 3 else mp - 9)
     in (if m \<le> 2 then y + 1 else y, m, d))"

definition days_from_civil :: "int \<Rightarrow> int \<Rightarrow> int \<Rightarrow> int" where
  "days_from_civil y0 m d =
    (let y = (if m \<le> 2 then y0 - 1 else y0);
         era = y div 400;
         yoe = y - era * 400;
         doy = (153 * (if m > 2 then m - 3 else m + 9) + 2) div 5 + d - 1;
         doe = yoe * 365 + yoe div 4 - yoe div 100 + doy
     in era * 146097 + doe - 719468)"

text \<open>A non-negative number written with at least \<open>w\<close> digits.\<close>

definition pad :: "nat \<Rightarrow> int \<Rightarrow> string" where
  "pad w n = (let s = string_of_nat (nat n) in replicate (w - length s) CHR ''0'' @ s)"

definition year_str :: "int \<Rightarrow> string" where
  "year_str y = (if 0 \<le> y \<and> y \<le> 9999 then pad 4 y
     else if y < 0 then ''-'' @ pad 6 (- y) else ''+'' @ pad 6 y)"

text \<open>The text of a time value in the form \<open>YYYY-MM-DDTHH:mm:ss.sssZ\<close>.\<close>

definition isoString :: "int \<Rightarrow> string" where
  "isoString t =
    (let (y, m, d) = civil_from_days (t div msPerDay);
         ms = t mod msPerDay
     in year_str y @ ''-'' @ pad 2 m @ ''-'' @ pad 2 d @ ''T''
        @ pad 2 (ms div 3600000) @ '':'' @ pad 2 (ms div 60000 mod 60) @ '':''
        @ pad 2 (ms div 1000 mod 60) @ ''.'' @ pad 3 (ms mod 1000) @ ''Z'')"

text \<open>\<open>d.toISOString()\<close>: a RangeError when the time value of \<open>d\<close> is NaN.\<close>

definition toISOString :: "int option \<Rightarrow> js_error + string" where
  "toISOString tv = (case tv of
      None \<Rightarrow> Inl (RangeError ''Invalid time value'')
    | Some t \<Rightarrow> Inr (isoString t))"

text \<open>
  The functions of the runtime that the model takes as parameters: \<open>JSON.parse\<close> followed
  by the unchecked cast \<open>as GitEvent[]\<close> (\<open>None\<close> when it throws a SyntaxError), and
  \<open>Date.parse\<close> (\<open>None\<close> for NaN).
\<close>

record js_runtime =
  JSON_parse :: "string \<Rightarrow> GitEvent list option"
  Date_parse :: "string \<Rightarrow> int option"

section \<open>Plan generation (services/geminiService.ts)\<close>

definition nl :: string where
  "nl = [CHR 0x0A]"

text \<open>The template literal \<open>prompt\<close> of \<open>generateSimulationPlan\<close>, line by line.\<close>

definition renderPrompt :: "UserConfig \<Rightarrow> string" where
  \<open>renderPrompt config =
     nl
   @ ''    Act as a "GitHub History Architect". I need to generate a realistic JSON history of Git events for a repository.'' @ nl
   @ ''    '' @ nl
   @ ''    Configuration:'' @ nl
   @ ''    - User: '' @ username config @ nl
   @ ''    - Repo: '' @ targetRepo config @ nl
   @ ''    - Tech Stack: '' @ techStack config @ nl
   @ ''    - Branching Strategy: '' @ strategy_str (strategy config) @ nl
   @ ''    - Date Range: '' @ startDate config @ '' to '' @ endDate config @ nl
   @ ''    - Intensity (1-10): '' @ string_of_int (intensity config) @ nl
   @ ''    - Target Achievements: '' @ join '', '' (achievements config) @ nl
   @ ''    - Include LFS: '' @ bool_str (includeLfs config) @ nl
   @ nl
   @ ''    Generate a strictly chronological list of approximately 20-30 representative events (scaling down for demo purposes, normally would be hundreds) that tells a story of development.'' @ nl
   @ ''    Include a mix of:'' @ nl
   @ ''    1. Initial commit'' @ nl
   @ ''    2. Feature branches creation'' @ nl
   @ ''    3. Commits (feat, fix, chore, docs) with realistic messages.'' @ nl
   @ ''    4. Issues created and closed.'' @ nl
   @ ''    5. Pull Requests created, reviewed (simulated), and merged.'' @ nl
   @ ''    6. Tag releases (e.g., v1.0.0).'' @ nl
   @ nl
   @ ''    Ensure "Pair Extraordinaire" (Co-authored-by) is present if requested.'' @ nl
   @ ''    Ensure "Pull Shark" (Merges) is present if requested.'' @ nl
   @ ''    '' @ nl
   @ ''    The dates must be distributed realistically (more on weekdays, less on weekends).'' @ nl
   @ ''  ''\<close>

text \<open>
  The generator collaborator \<open>ai.models.generateContent\<close> is a parameter: given the
  prompt it throws (\<open>Inl\<close> the message) or returns a response whose \<open>text\<close> may be
  undefined (\<open>Inr None\<close>). The model name, the system instruction and the response
  schema of the request are constants of the call and are not modelled.
\<close>

type_synonym generator = "string \<Rightarrow> string + string option"

text \<open>\<open>text.replace(/```json/g, '').replace(/```/g, '').trim()\<close> on \<open>response.text || ""\<close>\<close>

definition jsonStr_of :: "string option \<Rightarrow> string" where
  "jsonStr_of response_text =
    (let text = (case response_text of None \<Rightarrow> [] | Some t \<Rightarrow> t)
     in trim (replace_g ''```'' [] (replace_g ''```json'' [] text)))"

text \<open>The body of the \<open>try\<close> block: the returned plan, or the error thrown in it.\<close>

definition try_generate :: "js_runtime \<Rightarrow> generator \<Rightarrow> string \<Rightarrow> js_error + GitEvent list" where
  "try_generate rt generateContent prompt =
    (case generateContent prompt of
       Inl msg \<Rightarrow> Inl (Error msg)
     | Inr response_text \<Rightarrow>
        (let jsonStr = jsonStr_of response_text
         in if jsonStr \<noteq> []
            then (case JSON_parse rt jsonStr of
                    Some plan \<Rightarrow> Inr plan
                  | None \<Rightarrow> Inl (SyntaxError ''JSON.parse''))
            else Inl (Error ''No data returned from AI'')))"

text \<open>
  The body of the \<open>catch\<close> block. The array literal is evaluated left to right, and
  \<open>new Date(new Date(config.startDate).getTime() + 86400000).toISOString()\<close> throws a
  RangeError when the time value is NaN; nothing catches it.
\<close>

definition fallback_events :: "UserConfig \<Rightarrow> string \<Rightarrow> GitEvent list" where
  "fallback_events config nextDay =
    [ \<lparr> id_ev = ''evt_1'', date = startDate config, type_ev = commit,
        title = ''feat: Initial project scaffold'',
        description = ''Initialize project structure with standard boilerplate'',
        branch = Some ''main'', filesChanged = Some 12, author = username config,
        tags = Some [''init''] \<rparr>,
      \<lparr> id_ev = ''evt_2'', date = nextDay, type_ev = branch_t,
        title = ''Create branch feature/auth-system'',
        description = ''Branching for authentication system'',
        branch = Some ''feature/auth-system'', filesChanged = Some 0, author = username config,
        tags = Some [''flow''] \<rparr> ]"

definition nextDay_of :: "js_runtime \<Rightarrow> UserConfig \<Rightarrow> js_error + string" where
  "nextDay_of rt config =
    (let getTime = TimeClip (Date_parse rt (startDate config))
     in toISOString (TimeClip (map_option (\<lambda>t. t + 86400000) getTime)))"

definition catch_fallback :: "js_runtime \<Rightarrow> UserConfig \<Rightarrow> js_error + GitEvent list" where
  "catch_fallback rt config =
    (case nextDay_of rt config of
       Inl e \<Rightarrow> Inl e
     | Inr nextDay \<Rightarrow> Inr (fallback_events config nextDay))"

text \<open>
  \<open>generateSimulationPlan\<close>: \<open>Inr\<close> the plan the promise resolves to, \<open>Inl\<close> the error it
  is rejected with. The \<open>console.error\<close> of the \<open>catch\<close> block is not modelled.
\<close>

definition generateSimulationPlan :: "js_runtime \<Rightarrow> generator \<Rightarrow> UserConfig \<Rightarrow> js_error + GitEvent list" where
  "generateSimulationPlan rt generateContent config =
    (case try_generate rt generateContent (renderPrompt config) of
       Inr plan \<Rightarrow> Inr plan
     | Inl err \<Rightarrow> catch_fallback rt config)"

section \<open>Weaving (handleWeave in App.tsx)\<close>

text \<open>
  The state of the component that \<open>handleWeave\<close> writes. \<open>config\<close> and \<open>plan\<close> are the
  values captured when the handler was created; they are its inputs here.
\<close>

record AppState =
  phase :: SimulationPhase
  logs :: "LogEntry list"
  progress :: real
  isWeaving :: bool

text \<open>
  The collaborators of services/githubService.ts and the clock and timer of the runtime,
  over a state \<open>'w\<close> of the outside world. A call that throws returns \<open>Inl\<close> the
  \<open>message\<close> of what was thrown. \<open>clock\<close> is
  \<open>new Date().toLocaleTimeString('en-US', {hour12: false})\<close>, and \<open>setTimeout\<close> is the
  awaited \<open>new Promise(resolve => setTimeout(resolve, ms))\<close>.
\<close>

record 'w collaborators =
  initGitHub :: "string \<Rightarrow> string \<Rightarrow> string \<Rightarrow> 'w \<Rightarrow> (string + unit) \<times> 'w"
  executeGitEvent :: "GitEvent \<Rightarrow> UserConfig \<Rightarrow> 'w \<Rightarrow> (string + string) \<times> 'w"
  clock :: "'w \<Rightarrow> string"
  setTimeout :: "nat \<Rightarrow> 'w \<Rightarrow> 'w"

text \<open>
  What \<open>handleWeave\<close> does, in program order: the state updates it queues and the awaited
  calls it makes. An awaited call is recorded with the arguments it received, the world
  it was started in, the outcome it settled with and the world it left.
\<close>

datatype 'w effect =
    SetPhase SimulationPhase
  | SetLogs "LogEntry list"
  | AddLog LogEntry
  | SetProgress real
  | SetIsWeaving bool
  | InitGitHub string string string 'w "string + unit" 'w
  | ExecuteGitEvent GitEvent UserConfig 'w "string + string" 'w
  | Timeout nat 'w 'w

text \<open>\<open>addLog(message, level)\<close>: \<open>setLogs(prev => [...prev, {timestamp, level, message}])\<close>\<close>

definition addLog :: "'w collaborators \<Rightarrow> 'w \<Rightarrow> string \<Rightarrow> log_level \<Rightarrow> 'w effect" where
  "addLog env w msg lvl = AddLog \<lparr> timestamp = clock env w, level = lvl, message = msg \<rparr>"

fun apply_effect :: "AppState \<Rightarrow> 'w effect \<Rightarrow> AppState" where
  "apply_effect s (SetPhase p) = s\<lparr>phase := p\<rparr>"
| "apply_effect s (SetLogs l) = s\<lparr>logs := l\<rparr>"
| "apply_effect s (AddLog e) = s\<lparr>logs := logs s @ [e]\<rparr>"
| "apply_effect s (SetProgress p) = s\<lparr>progress := p\<rparr>"
| "apply_effect s (SetIsWeaving b) = s\<lparr>isWeaving := b\<rparr>"
| "apply_effect s (InitGitHub t r u w0 res w1) = s"
| "apply_effect s (ExecuteGitEvent e c w0 res w1) = s"
| "apply_effect s (Timeout ms w0 w1) = s"

definition run_effects :: "AppState \<Rightarrow> 'w effect list \<Rightarrow> AppState" where
  "run_effects s effs = foldl apply_effect s effs"

text \<open>
  The \<open>for\<close> loop from index \<open>i\<close> on: the effects of the remaining iterations and the
  world they leave. The index and the length of an array are integers below \<open>2^32\<close>,
  which are doubles; the quotient and the product of \<open>((i + 1) / plan.length) * 100\<close>
  are rounded.
\<close>

function weave_events :: "'w collaborators \<Rightarrow> UserConfig \<Rightarrow> GitEvent list \<Rightarrow> nat \<Rightarrow> 'w
    \<Rightarrow> 'w effect list \<times> 'w" where
  "weave_events env config plan i w =
    (if i < length plan then
       (let event = plan ! i;
            processing = addLog env w
              (''Processing ['' @ toUpperCase (type_str (type_ev event)) @ ''] '' @ title event @ ''...'') info;
            (res, w1) = executeGitEvent env event config w;
            outcome = (case res of
                Inr resultMsg \<Rightarrow> addLog env w1 resultMsg success
              | Inl e_message \<Rightarrow> addLog env w1 (''Failed: '' @ e_message) error);
            p = fmul (fdiv (real (i + 1)) (real (length plan))) 100;
            w2 = setTimeout env 800 w1;
            (rest, w3) = weave_events env config plan (i + 1) w2
        in ([processing, ExecuteGitEvent event config w res w1, outcome, SetProgress p,
             Timeout 800 w1 w2] @ rest, w3))
     else ([], w))"
  by pat_completeness auto
termination
  by (relation "measure (\<lambda>(env, config, plan, i, w). length plan - i)") auto

declare weave_events.simps [simp del]

definition handleWeave :: "'w collaborators \<Rightarrow> UserConfig \<Rightarrow> GitEvent list \<Rightarrow> 'w \<Rightarrow> 'w effect list \<times> 'w" where
  "handleWeave env config plan w =
    (let start = [SetPhase Weaving, SetLogs [], SetProgress 0, SetIsWeaving True,
            addLog env w (''Initializing GitHub connection for '' @ username config @ ''/''
                          @ targetRepo config @ ''...'') info];
         finally_block = [SetIsWeaving False, SetProgress 100, SetPhase Complete];
         (conn, w1) = initGitHub env (githubToken config) (targetRepo config) (username config) w;
         init = InitGitHub (githubToken config) (targetRepo config) (username config) w conn w1
     in case conn of
          Inr _ \<Rightarrow>
            (let connected = addLog env w1 (''Connected securely. Starting sequence of ''
                    @ string_of_nat (length plan) @ '' events.'') success;
                 (loop, w2) = weave_events env config plan 0 w1;
                 all_done = addLog env w2 ''All events processed successfully.'' success
             in (start @ [init, connected] @ loop @ [all_done] @ finally_block, w2))
        | Inl e_message \<Rightarrow>
            (let critical = addLog env w1 (''Critical Error: '' @ e_message) error
             in (start @ [init, critical] @ finally_block, w1)))"

text \<open>Observations of a run.\<close>

fun calls :: "'w effect list \<Rightarrow> (GitEvent \<times> UserConfig \<times> (string + string)) list" where
  "calls [] = []"
| "calls (ExecuteGitEvent e c w0 res w1 # effs) = (e, c, res) # calls effs"
| "calls (x # effs) = calls effs"

fun log_entries :: "'w effect list \<Rightarrow> LogEntry list" where
  "log_entries [] = []"
| "log_entries (AddLog e # effs) = e # log_entries effs"
| "log_entries (x # effs) = log_entries effs"

fun progress_updates :: "'w effect list \<Rightarrow> real list" where
  "progress_updates [] = []"
| "progress_updates (SetProgress p # effs) = p # progress_updates effs"
| "progress_updates (x # effs) = progress_updates effs"

text \<open>The awaited calls of a run, in order: connection, event executions and pacing delays.\<close>

fun awaited :: "'w effect list \<Rightarrow> 'w effect list" where
  "awaited [] = []"
| "awaited (InitGitHub t r u w0 res w1 # effs) = InitGitHub t r u w0 res w1 # awaited effs"
| "awaited (ExecuteGitEvent e c w0 res w1 # effs) = ExecuteGitEvent e c w0 res w1 # awaited effs"
| "awaited (Timeout ms w0 w1 # effs) = Timeout ms w0 w1 # awaited effs"
| "awaited (x # effs) = awaited effs"

text \<open>What was awaited, without the worlds and the outcomes.\<close>

datatype call = Connect string string string | Execute GitEvent UserConfig | Delay nat

fun awaited_calls :: "'w effect list \<Rightarrow> call list" where
  "awaited_calls [] = []"
| "awaited_calls (InitGitHub t r u w0 res w1 # effs) = Connect t r u # awaited_calls effs"
| "awaited_calls (ExecuteGitEvent e c w0 res w1 # effs) = Execute e c # awaited_calls effs"
| "awaited_calls (Timeout ms w0 w1 # effs) = Delay ms # awaited_calls effs"
| "awaited_calls (x # effs) = awaited_calls effs"

text \<open>
  \<open>chained w effs\<close>: the first awaited call of \<open>effs\<close> is started in the world \<open>w\<close>, and
  every later one in the world that the awaited call before it left. \<open>world_after w effs\<close>
  is the world that the last awaited call left.
\<close>

fun chained :: "'w \<Rightarrow> 'w effect list \<Rightarrow> bool" where
  "chained w [] = True"
| "chained w (InitGitHub t r u w0 res w1 # effs) = (w0 = w \<and> chained w1 effs)"
| "chained w (ExecuteGitEvent e c w0 res w1 # effs) = (w0 = w \<and> chained w1 effs)"
| "chained w (Timeout ms w0 w1 # effs) = (w0 = w \<and> chained w1 effs)"
| "chained w (x # effs) = chained w effs"

fun world_after :: "'w \<Rightarrow> 'w effect list \<Rightarrow> 'w" where
  "world_after w [] = w"
| "world_after w (InitGitHub t r u w0 res w1 # effs) = world_after w1 effs"
| "world_after w (ExecuteGitEvent e c w0 res w1 # effs) = world_after w1 effs"
| "world_after w (Timeout ms w0 w1 # effs) = world_after w1 effs"
| "world_after w (x # effs) = world_after w effs"

text \<open>
  \<open>answered env x\<close>: the outcome and the world recorded in an awaited call \<open>x\<close> are what
  the collaborator or the timer gives in the world the call was started in.
\<close>

fun answered :: "'w collaborators \<Rightarrow> 'w effect \<Rightarrow> bool" where
  "answered env (InitGitHub t r u w0 res w1) = (initGitHub env t r u w0 = (res, w1))"
| "answered env (ExecuteGitEvent e c w0 res w1) = (executeGitEvent env e c w0 = (res, w1))"
| "answered env (Timeout ms w0 w1) = (setTimeout env ms w0 = w1)"
| "answered env x = True"

text \<open>The progress updates of a run among its awaited calls.\<close>

datatype mark = Call call | Progress real

fun marks :: "'w effect list \<Rightarrow> mark list" where
  "marks [] = []"
| "marks (SetProgress p # effs) = Progress p # marks effs"
| "marks (InitGitHub t r u w0 res w1 # effs) = Call (Connect t r u) # marks effs"
| "marks (ExecuteGitEvent e c w0 res w1 # effs) = Call (Execute e c) # marks effs"
| "marks (Timeout ms w0 w1 # effs) = Call (Delay ms) # marks effs"
| "marks (x # effs) = marks effs"

text \<open>The value of \<open>((k / n) * 100)\<close> in doubles.\<close>

definition percent :: "nat \<Rightarrow> nat \<Rightarrow> real" where
  "percent k n = fmul (fdiv (real k) (real n)) 100"

text \<open>Level and message of a log entry; the timestamp is the wall clock.\<close>

definition entry_line :: "LogEntry \<Rightarrow> log_level \<times> string" where
  "entry_line e = (level e, message e)"

definition log_lines :: "'w effect list \<Rightarrow> (log_level \<times> string) list" where
  "log_lines effs = map entry_line (log_entries effs)"


fun resets_logs :: "'w effect \<Rightarrow> bool" where
  "resets_logs (SetLogs l) = True"
| "resets_logs x = False"

section \<open>Concrete inputs\<close>

text \<open>
  \<open>Date.parse\<close> on the date-only form \<open>YYYY-MM-DD\<close> of the date-time string format, the
  form an \<open>input type="date"\<close> produces, read as UTC midnight; every other text,
  the empty text among them, is NaN here.
\<close>

definition digits_val :: "string \<Rightarrow> int option" where
  "digits_val s =
    (if s \<noteq> [] \<and> list_all (\<lambda>c. 48 \<le> (of_char c :: nat) \<and> (of_char c :: nat) \<le> 57) s
     then Some (foldl (\<lambda>a c. 10 * a + (int (of_char c) - 48)) 0 s) else None)"

definition days_in_month :: "int \<Rightarrow> int \<Rightarrow> int" where
  "days_in_month y m =
    (if m = 2 then (if y mod 4 = 0 \<and> (y mod 100 \<noteq> 0 \<or> y mod 400 = 0) then 29 else 28)
     else if m \<in> {4, 6, 9, 11} then 30 else 31)"

definition Date_parse_dateonly :: "string \<Rightarrow> int option" where
  "Date_parse_dateonly s =
    (if length s = 10 \<and> s ! 4 = CHR ''-'' \<and> s ! 7 = CHR ''-'' then
       (case (digits_val (take 4 s), digits_val (take 2 (drop 5 s)), digits_val (drop 8 s)) of
          (Some y, Some m, Some d) \<Rightarrow>
            if 1 \<le> m \<and> m \<le> 12 \<and> 1 \<le> d \<and> d \<le> days_in_month y m
            then Some (days_from_civil y m d * msPerDay) else None
        | _ \<Rightarrow> None)
     else None)"

text \<open>\<open>JSON.parse\<close> on two texts: the empty array and an array of one event.\<close>

definition old_event_json :: string where
  \<open>old_event_json = ''[{"id":"e1","date":"1999-12-31","type":"commit","title":"old work","description":"","branch":"main","author":"bob"}]''\<close>

definition old_event :: GitEvent where
  "old_event = \<lparr> id_ev = ''e1'', date = ''1999-12-31'', type_ev = commit, title = ''old work'',
     description = [], branch = Some ''main'', filesChanged = None, author = ''bob'', tags = None \<rparr>"

definition JSON_parse_two :: "string \<Rightarrow> GitEvent list option" where
  "JSON_parse_two s = (if s = ''[]'' then Some [] else if s = old_event_json then Some [old_event] else None)"

definition rt_demo :: js_runtime where
  "rt_demo = \<lparr> JSON_parse = JSON_parse_two, Date_parse = Date_parse_dateonly \<rparr>"

definition cfg_alice :: UserConfig where
  "cfg_alice = \<lparr> githubToken = ''ghp_alice_secret'', username = ''alice'', targetRepo = ''demo'',
     startDate = ''2024-01-01'', endDate = ''2024-01-02'', techStack = ''React & TypeScript'',
     intensity = 7, strategy = gitflow, includeLfs = True,
     achievements = [''pull_shark'', ''pair_extraordinaire''] \<rparr>"

definition gen_throws :: generator where
  "gen_throws prompt = Inl ''API key not valid''"

definition gen_text :: "string \<Rightarrow> generator" where
  "gen_text t prompt = Inr (Some t)"

text \<open>
  A remote repository over a counter of the milliseconds spent: the connection is refused
  for the repository name \<open>missing\<close>, a merge event fails, every other event succeeds.
\<close>

definition remote_demo :: "nat collaborators" where
  "remote_demo = \<lparr>
     initGitHub = (\<lambda>token repo user w. (if repo = ''missing'' then Inl ''Not Found'' else Inr (), w + 1)),
     executeGitEvent = (\<lambda>event config w.
        (if type_ev event = merge then Inl ''Merge conflict'' else Inr (''Done: '' @ title event), w + 1)),
     clock = (\<lambda>w. string_of_nat w),
     setTimeout = (\<lambda>ms w. w + ms) \<rparr>"

text \<open>
  A rate limited remote repository over the time in milliseconds and the time before
  which it refuses another execution, 800 ms after the start of the last one: a merge
  event fails, every other event succeeds when it is not refused.
\<close>

definition remote_rate_limited :: "(nat \<times> nat) collaborators" where
  "remote_rate_limited = \<lparr>
     initGitHub = (\<lambda>token repo user (now, free). (Inr (), (now + 1, free))),
     executeGitEvent = (\<lambda>event config (now, free).
        (if now < free then Inl ''rate limited''
         else if type_ev event = merge then Inl ''Merge conflict''
         else Inr (''Done: '' @ title event), (now + 1, now + 800))),
     clock = (\<lambda>(now, free). string_of_nat now),
     setTimeout = (\<lambda>ms (now, free). (now + ms, free)) \<rparr>"

definition mk_event :: "string \<Rightarrow> event_type \<Rightarrow> string \<Rightarrow> GitEvent" where
  "mk_event i t ttl = \<lparr> id_ev = i, date = ''2024-01-01'', type_ev = t, title = ttl,
     description = [], branch = Some ''main'', filesChanged = None, author = ''alice'', tags = None \<rparr>"

definition plan3 :: "GitEvent list" where
  "plan3 = [mk_event ''e1'' commit ''first'', mk_event ''e2'' merge ''second'', mk_event ''e3'' tag ''third'']"

definition plan_merges :: "GitEvent list" where
  "plan_merges = [mk_event ''m1'' merge ''one'', mk_event ''m2'' merge ''two'']"

text \<open>
  The failures of generation that the specification names: the collaborator throws, the
  response is empty once the code fences are removed and the text is trimmed, or the text
  does not parse.
\<close>

definition generation_failed :: "js_runtime \<Rightarrow> string + string option \<Rightarrow> bool" where
  "generation_failed rt outcome =
    (case outcome of
       Inl m \<Rightarrow> True
     | Inr r \<Rightarrow> jsonStr_of r = [] \<or> JSON_parse rt (jsonStr_of r) = None)"

text \<open>Two responses wrapped in a code fence: one event, and nothing.\<close>

definition fenced_old_event :: string where
  "fenced_old_event = ''```json'' @ nl @ old_event_json @ nl @ ''```''"

definition fenced_nothing :: string where
  "fenced_nothing = ''```json'' @ nl @ ''```''"

definition initial_state :: AppState where
  "initial_state = \<lparr> phase = Blueprint, logs = [], progress = 0, isWeaving = False \<rparr>"

section \<open>Rounding to doubles\<close>

lemma pow2_double:
  "2 powi k \<le> y \<and> y < 2 powi (k + 1) \<Longrightarrow> 2 powi (k + 1) \<le> 2 * y \<and> 2 * y < (2::real) powi (k + 1 + 1)"
  by (simp add: power_int_add)

lemma pow2_half:
  "2 powi k \<le> 2 * x \<and> 2 * x < 2 powi (k + 1) \<Longrightarrow> 2 powi (k - 1) \<le> x \<and> x < (2::real) powi (k - 1 + 1)"
  by (simp add: power_int_diff power_int_add)

lemma ilog2_bounds:
  "0 < x \<Longrightarrow> 2 powi (ilog2 x) \<le> x \<and> x < 2 powi (ilog2 x + 1)"
proof (induction x rule: ilog2.induct)
  case (1 x)
  show ?case
  proof (cases "x < 1")
    case True
    with 1 have ih: "2 powi (ilog2 (2 * x)) \<le> 2 * x \<and> 2 * x < 2 powi (ilog2 (2 * x) + 1)"
      by simp
    have e: "ilog2 x = ilog2 (2 * x) - 1"
      using True 1(3) by (subst ilog2.simps) simp
    show ?thesis unfolding e by (rule pow2_half[OF ih])
  next
    case False
    show ?thesis
    proof (cases "2 \<le> x")
      case True
      with 1 False have ih: "2 powi (ilog2 (x / 2)) \<le> x / 2 \<and> x / 2 < 2 powi (ilog2 (x / 2) + 1)"
        by simp
      have e: "ilog2 x = ilog2 (x / 2) + 1"
        using True False 1(3) by (subst ilog2.simps) simp
      have h: "2 * (x / 2) = x" by simp
      show ?thesis unfolding e using pow2_double[OF ih] unfolding h .
    next
      case nt: False
      have e: "ilog2 x = 0"
        using nt False 1(3) by (subst ilog2.simps) simp
      show ?thesis using nt False by (simp add: e)
    qed
  qed
qed

lemma ilog2_mono:
  assumes "0 < x" and "x \<le> y"
  shows "ilog2 x \<le> ilog2 y"
proof (rule ccontr)
  assume "\<not> ilog2 x \<le> ilog2 y"
  then have "ilog2 y + 1 \<le> ilog2 x" by simp
  then have "(2::real) powi (ilog2 y + 1) \<le> 2 powi (ilog2 x)"
    by (intro power_int_increasing) simp_all
  moreover have "y < 2 powi (ilog2 y + 1)" using ilog2_bounds[of y] assms by simp
  moreover have "2 powi (ilog2 x) \<le> x" using ilog2_bounds[of x] assms by simp
  ultimately show False using assms by simp
qed

lemma round_half_even_range:
  "\<lfloor>r\<rfloor> \<le> round_half_even r \<and> round_half_even r \<le> \<lfloor>r\<rfloor> + 1"
  by (simp add: round_half_even_def Let_def)

lemma round_half_even_of_int:
  "round_half_even (of_int k) = k"
  by (simp add: round_half_even_def Let_def)

lemma round_half_even_mono:
  assumes "r \<le> s"
  shows "round_half_even r \<le> round_half_even s"
proof (cases "\<lfloor>r\<rfloor> = \<lfloor>s\<rfloor>")
  case True
  with assms have "r - of_int \<lfloor>r\<rfloor> \<le> s - of_int \<lfloor>s\<rfloor>" by simp
  with True show ?thesis
    by (auto simp: round_half_even_def Let_def)
next
  case False
  with assms have "\<lfloor>r\<rfloor> + 1 \<le> \<lfloor>s\<rfloor>"
    using floor_mono[OF assms] by simp
  with round_half_even_range[of r] round_half_even_range[of s] show ?thesis by simp
qed

lemma double_pos:
  "0 < x \<Longrightarrow> double x = of_int (round_half_even (x * 2 powi (52 - ilog2 x))) * 2 powi (ilog2 x - 52)"
  by (simp add: double_def)

lemma pow2_split:
  "(2::real) powi a * 2 powi (b - a) = 2 powi b"
  by (simp add: power_int_add[symmetric] del: power_int_numeral)

lemma double_bounds:
  assumes "0 < x"
  shows "2 powi (ilog2 x) \<le> double x \<and> double x \<le> 2 powi (ilog2 x + 1)"
proof -
  define e where "e = ilog2 x"
  define s where "s = x * 2 powi (52 - e)"
  define m where "m = round_half_even s"
  have p: "(0::real) < 2 powi (52 - e)" and q: "(0::real) < 2 powi (e - 52)" by simp_all
  have lo: "2 powi e \<le> x" and hi: "x < 2 powi (e + 1)"
    using ilog2_bounds[OF assms] by (simp_all add: e_def)
  have "2 powi e * 2 powi (52 - e) \<le> s"
    unfolding s_def using lo p by (intro mult_right_mono) simp_all
  then have "(2::real) powi 52 \<le> s" by (simp only: pow2_split)
  then have "real_of_int (2 ^ 52) \<le> s" by simp
  then have "round_half_even (real_of_int (2 ^ 52)) \<le> m"
    unfolding m_def by (rule round_half_even_mono)
  then have a: "2 ^ 52 \<le> m" by (simp only: round_half_even_of_int)
  have "s \<le> 2 powi (e + 1) * 2 powi (52 - e)"
    unfolding s_def using hi p by (intro mult_right_mono) simp_all
  moreover have "(2::real) powi (e + 1) * 2 powi (52 - e) = 2 powi 53"
    by (simp add: power_int_add[symmetric] del: power_int_numeral)
  ultimately have "s \<le> (2::real) powi 53" by simp
  then have "s \<le> real_of_int (2 ^ 53)" by simp
  then have "m \<le> round_half_even (real_of_int (2 ^ 53))"
    unfolding m_def by (rule round_half_even_mono)
  then have b: "m \<le> 2 ^ 53" by (simp only: round_half_even_of_int)
  from a have a': "(2::real) powi 52 \<le> real_of_int m"
    using of_int_le_iff[of "2 ^ 52" m, where 'a = real] by simp
  from b have b': "real_of_int m \<le> (2::real) powi 53"
    using of_int_le_iff[of m "2 ^ 53", where 'a = real] by simp
  have d: "double x = real_of_int m * 2 powi (e - 52)"
    by (simp add: double_pos[OF assms] m_def s_def e_def)
  have "(2::real) powi 52 * 2 powi (e - 52) \<le> real_of_int m * 2 powi (e - 52)"
    using a' q by (intro mult_right_mono) simp_all
  then have l: "2 powi e \<le> double x" by (simp only: pow2_split d)
  have "real_of_int m * 2 powi (e - 52) \<le> (2::real) powi 53 * 2 powi (e - 52)"
    using b' q by (intro mult_right_mono) simp_all
  moreover have "(2::real) powi 53 * 2 powi (e - 52) = 2 powi (e + 1)"
  proof -
    have eq: "e - 52 = e + 1 - 53" by simp
    show ?thesis by (subst eq) (rule pow2_split)
  qed
  ultimately have u: "double x \<le> 2 powi (e + 1)" by (simp only: d)
  from l u show ?thesis by (simp add: e_def)
qed

lemma double_positive:
  "0 < x \<Longrightarrow> 0 < double x"
  using double_bounds[of x] zero_less_power_int[of "2::real" "ilog2 x"] by linarith

lemma double_mono:
  assumes "0 < x" and "x \<le> y"
  shows "double x \<le> double y"
proof (cases "ilog2 x = ilog2 y")
  case True
  have y: "0 < y" using assms by simp
  have "x * 2 powi (52 - ilog2 y) \<le> y * 2 powi (52 - ilog2 y)"
    using assms by (simp add: mult_right_mono)
  then have "round_half_even (x * 2 powi (52 - ilog2 y)) \<le> round_half_even (y * 2 powi (52 - ilog2 y))"
    by (rule round_half_even_mono)
  then show ?thesis
    by (simp add: double_pos[OF assms(1)] double_pos[OF y] True mult_right_mono)
next
  case False
  have y: "0 < y" using assms by simp
  from False ilog2_mono[OF assms] have "ilog2 x + 1 \<le> ilog2 y" by simp
  then have "(2::real) powi (ilog2 x + 1) \<le> 2 powi (ilog2 y)"
    by (intro power_int_increasing) simp_all
  with double_bounds[OF assms(1)] double_bounds[OF y] show ?thesis by linarith
qed

lemma double_1: "double 1 = 1"
  by code_simp

lemma double_100: "double 100 = 100"
  by code_simp

lemma percent_mono:
  assumes "0 < k" and "k \<le> k'" and "0 < n"
  shows "percent k n \<le> percent k' n"
proof -
  have a: "0 < real k / real n" using assms by simp
  have "real k / real n \<le> real k' / real n" using assms by (simp add: divide_right_mono)
  then have "double (real k / real n) \<le> double (real k' / real n)"
    using a by (rule double_mono[rotated])
  then have "double (real k / real n) * 100 \<le> double (real k' / real n) * 100" by simp
  moreover have "0 < double (real k / real n) * 100" using double_positive[OF a] by simp
  ultimately show ?thesis
    unfolding percent_def fmul_def fdiv_def by (rule double_mono[rotated])
qed

lemma percent_full:
  "0 < n \<Longrightarrow> percent n n = 100"
  by (simp add: percent_def fmul_def fdiv_def double_1 double_100)

lemma percent_nonneg:
  "0 < k \<Longrightarrow> 0 < n \<Longrightarrow> 0 < percent k n"
  unfolding percent_def fmul_def fdiv_def by (intro double_positive mult_pos_pos) simp_all

lemma percent_le_100:
  "0 < k \<Longrightarrow> k \<le> n \<Longrightarrow> percent k n \<le> 100"
  using percent_mono[of k n n] percent_full[of n] by simp

section \<open>The loop of handleWeave\<close>

lemma weave_events_done:
  "\<not> i < length plan \<Longrightarrow> weave_events env config plan i w = ([], w)"
  by (subst weave_events.simps) simp

lemma weave_events_unfold:
  "i < length plan \<Longrightarrow> weave_events env config plan i w =
    (case executeGitEvent env (plan ! i) config w of (res, w1) \<Rightarrow>
      (case weave_events env config plan (Suc i) (setTimeout env 800 w1) of (rest, w3) \<Rightarrow>
        ([addLog env w (''Processing ['' @ toUpperCase (type_str (type_ev (plan ! i))) @ ''] ''
                        @ title (plan ! i) @ ''...'') info,
          ExecuteGitEvent (plan ! i) config w res w1,
          (case res of Inr resultMsg \<Rightarrow> addLog env w1 resultMsg success
                     | Inl e_message \<Rightarrow> addLog env w1 (''Failed: '' @ e_message) error),
          SetProgress (percent (i + 1) (length plan)),
          Timeout 800 w1 (setTimeout env 800 w1)] @ rest, w3)))"
  by (subst weave_events.simps) (simp add: Let_def percent_def split: prod.splits)



lemma progress_weave_events:
  "progress_updates (fst (weave_events env config plan i w))
     = map (\<lambda>k. percent (k + 1) (length plan)) [i ..< length plan]"
proof (induction "length plan - i" arbitrary: i w)
  case 0
  then show ?case by (simp add: weave_events_done)
next
  case (Suc n)
  then have lt: "i < length plan" and n: "n = length plan - Suc i" by auto
  show ?case
    using Suc.hyps(1)[OF n]
    by (simp add: weave_events_unfold[OF lt] addLog_def upt_conv_Cons[OF lt]
             case_prod_beta split: sum.splits)
qed

text \<open>What the loop awaits: per event its execution and then the delay.\<close>

lemma awaited_calls_weave_events:
  "awaited_calls (fst (weave_events env config plan i w))
     = concat (map (\<lambda>e. [Execute e config, Delay 800]) (drop i plan))"
proof (induction "length plan - i" arbitrary: i w)
  case 0
  then show ?case by (simp add: weave_events_done)
next
  case (Suc n)
  then have lt: "i < length plan" and n: "n = length plan - Suc i" by auto
  show ?case
    using Suc.hyps(1)[OF n] Cons_nth_drop_Suc[OF lt, symmetric]
    by (simp add: weave_events_unfold[OF lt] addLog_def case_prod_beta split: sum.splits)
qed

text \<open>The progress update of an event stands between its execution and its delay.\<close>

lemma marks_weave_events:
  "marks (fst (weave_events env config plan i w))
     = concat (map (\<lambda>k. [Call (Execute (plan ! k) config), Progress (percent (k + 1) (length plan)),
                           Call (Delay 800)]) [i ..< length plan])"
proof (induction "length plan - i" arbitrary: i w)
  case 0
  then show ?case by (simp add: weave_events_done)
next
  case (Suc n)
  then have lt: "i < length plan" and n: "n = length plan - Suc i" by auto
  show ?case
    using Suc.hyps(1)[OF n]
    by (simp add: weave_events_unfold[OF lt] addLog_def upt_conv_Cons[OF lt]
             case_prod_beta split: sum.splits)
qed

text \<open>
  Every awaited call of the loop is started in the world the one before it left and is
  the answer of the collaborator or the timer there; the loop returns the last world.
\<close>

lemma chained_weave_events:
  "chained w (fst (weave_events env config plan i w))
   \<and> list_all (answered env) (fst (weave_events env config plan i w))
   \<and> world_after w (fst (weave_events env config plan i w)) = snd (weave_events env config plan i w)"
proof (induction "length plan - i" arbitrary: i w)
  case 0
  then show ?case by (simp add: weave_events_done)
next
  case (Suc n)
  then have lt: "i < length plan" and n: "n = length plan - Suc i" by auto
  show ?case
    using Suc.hyps(1)[OF n]
    by (simp add: weave_events_unfold[OF lt] addLog_def case_prod_beta split: sum.splits)
qed

lemma no_reset_weave_events:
  "list_all (\<lambda>x. \<not> resets_logs x) (fst (weave_events env config plan i w))"
proof (induction "length plan - i" arbitrary: i w)
  case 0
  then show ?case by (simp add: weave_events_done)
next
  case (Suc n)
  then have lt: "i < length plan" and n: "n = length plan - Suc i" by auto
  show ?case
    using Suc.hyps(1)[OF n]
    by (simp add: weave_events_unfold[OF lt] addLog_def case_prod_beta split: sum.splits)
qed

text \<open>The token reaches the loop only inside the configuration handed to the collaborator.\<close>

lemma weave_events_token:
  assumes "\<And>e w. executeGitEvent env e (config\<lparr>githubToken := t\<rparr>) w = executeGitEvent env e config w"
  shows "log_entries (fst (weave_events env (config\<lparr>githubToken := t\<rparr>) plan i w))
           = log_entries (fst (weave_events env config plan i w))
       \<and> snd (weave_events env (config\<lparr>githubToken := t\<rparr>) plan i w)
           = snd (weave_events env config plan i w)"
proof (induction "length plan - i" arbitrary: i w)
  case 0
  then show ?case by (simp add: weave_events_done)
next
  case (Suc n)
  then have lt: "i < length plan" and n: "n = length plan - Suc i" by auto
  show ?case
    using Suc.hyps(1)[OF n] assms
    by (simp add: weave_events_unfold[OF lt] addLog_def case_prod_beta split: sum.splits)
qed

section \<open>The state after a run\<close>

lemma run_effects_append:
  "run_effects s (xs @ ys) = run_effects (run_effects s xs) ys"
  by (simp add: run_effects_def)

lemma run_effects_Cons:
  "run_effects s (x # xs) = run_effects (apply_effect s x) xs"
  by (simp add: run_effects_def)

lemma run_effects_Nil:
  "run_effects s [] = s"
  by (simp add: run_effects_def)

lemma logs_run_effects:
  "list_all (\<lambda>x. \<not> resets_logs x) effs \<Longrightarrow>
     logs (run_effects s effs) = logs s @ log_entries effs"
proof (induction effs arbitrary: s)
  case Nil
  then show ?case by (simp add: run_effects_def)
next
  case (Cons x effs)
  then show ?case by (cases x) (simp_all add: run_effects_def)
qed

lemma log_entries_append:
  "log_entries (xs @ ys) = log_entries xs @ log_entries ys"
  by (induction xs rule: log_entries.induct) simp_all


lemma progress_updates_append:
  "progress_updates (xs @ ys) = progress_updates xs @ progress_updates ys"
  by (induction xs rule: progress_updates.induct) simp_all

lemma awaited_calls_append:
  "awaited_calls (xs @ ys) = awaited_calls xs @ awaited_calls ys"
  by (induction xs rule: awaited_calls.induct) simp_all

lemma marks_append:
  "marks (xs @ ys) = marks xs @ marks ys"
  by (induction xs rule: marks.induct) simp_all

lemma world_after_append:
  "world_after w (xs @ ys) = world_after (world_after w xs) ys"
  by (induction w xs rule: world_after.induct) simp_all

lemma chained_append:
  "chained w (xs @ ys) = (chained w xs \<and> chained (world_after w xs) ys)"
  by (induction w xs rule: chained.induct) auto

text \<open>The two paths of \<open>handleWeave\<close>, by the outcome of the connection.\<close>

lemma handleWeave_connected:
  assumes "initGitHub env (githubToken config) (targetRepo config) (username config) w = (Inr u, w1)"
  shows "fst (handleWeave env config plan w) =
     [SetPhase Weaving, SetLogs [], SetProgress 0, SetIsWeaving True,
      addLog env w (''Initializing GitHub connection for '' @ username config @ ''/''
                    @ targetRepo config @ ''...'') info,
      InitGitHub (githubToken config) (targetRepo config) (username config) w (Inr u) w1,
      addLog env w1 (''Connected securely. Starting sequence of ''
                     @ string_of_nat (length plan) @ '' events.'') success]
     @ fst (weave_events env config plan 0 w1)
     @ [addLog env (snd (weave_events env config plan 0 w1)) ''All events processed successfully.'' success,
        SetIsWeaving False, SetProgress 100, SetPhase Complete]"
  using assms by (simp add: handleWeave_def Let_def split: prod.splits)

lemma handleWeave_refused:
  assumes "initGitHub env (githubToken config) (targetRepo config) (username config) w = (Inl m, w1)"
  shows "fst (handleWeave env config plan w) =
     [SetPhase Weaving, SetLogs [], SetProgress 0, SetIsWeaving True,
      addLog env w (''Initializing GitHub connection for '' @ username config @ ''/''
                    @ targetRepo config @ ''...'') info,
      InitGitHub (githubToken config) (targetRepo config) (username config) w (Inl m) w1,
      addLog env w1 (''Critical Error: '' @ m) error,
      SetIsWeaving False, SetProgress 100, SetPhase Complete]"
  using assms by (simp add: handleWeave_def Let_def split: prod.splits)

text \<open>After a run the log of the state is the log the run wrote, and the run is complete.\<close>

lemma final_state_handleWeave:
  "logs (run_effects s (fst (handleWeave env config plan w))) = log_entries (fst (handleWeave env config plan w))
   \<and> progress (run_effects s (fst (handleWeave env config plan w))) = 100
   \<and> phase (run_effects s (fst (handleWeave env config plan w))) = Complete
   \<and> isWeaving (run_effects s (fst (handleWeave env config plan w))) = False"
proof -
  obtain conn w1 where c: "initGitHub env (githubToken config) (targetRepo config) (username config) w = (conn, w1)"
    by (cases "initGitHub env (githubToken config) (targetRepo config) (username config) w")
  show ?thesis
  proof (cases conn)
    case (Inl m)
    show ?thesis
      by (simp add: handleWeave_refused[OF c[unfolded Inl]] run_effects_Cons run_effects_Nil addLog_def)
  next
    case (Inr u)
    show ?thesis
      by (simp add: handleWeave_connected[OF c[unfolded Inr]] run_effects_Cons run_effects_Nil
            run_effects_append addLog_def logs_run_effects[OF no_reset_weave_events]
            log_entries_append)
  qed
qed

lemma sorted_progress_steps:
  "sorted (map (\<lambda>k. percent (k + 1) n) [i ..< n])"
  by (simp add: sorted_map sorted_wrt_iff_nth_less percent_mono)

lemma progress_steps_bounds:
  "x \<in> set (map (\<lambda>k. percent (k + 1) n) [i ..< n]) \<Longrightarrow> 0 \<le> x \<and> x \<le> 100"
proof -
  assume "x \<in> set (map (\<lambda>k. percent (k + 1) n) [i ..< n])"
  then obtain k where k: "k < n" and x: "x = percent (k + 1) n" by auto
  from k have "0 < percent (k + 1) n" by (intro percent_nonneg) simp_all
  moreover from k have "percent (k + 1) n \<le> 100" by (intro percent_le_100) simp_all
  ultimately show ?thesis using x by simp
qed

section \<open>Three concrete runs\<close>

lemma percent_thirds:
  "percent (Suc 0) 3 = 2345624805922133 / 70368744177664"
  "percent (Suc (Suc 0)) 3 = 2345624805922133 / 35184372088832"
  "percent (Suc (Suc (Suc 0))) 3 = 100"
  by (simp_all add: percent_def fmul_def fdiv_def double_def round_half_even_def ilog2.simps Let_def)

lemma percent_halves:
  "percent (Suc 0) (Suc (Suc 0)) = 50"
  "percent (Suc (Suc 0)) (Suc (Suc 0)) = 100"
  by (simp_all add: percent_def fmul_def fdiv_def double_def round_half_even_def ilog2.simps Let_def)

lemma upper_kinds:
  "toUpperCase (type_str commit) = ''COMMIT''"
  "toUpperCase (type_str merge) = ''MERGE''"
  "toUpperCase (type_str tag) = ''TAG''"
  by code_simp+

lemma lengths_shown:
  "string_of_nat (Suc (Suc 0)) = ''2''"
  "string_of_nat 3 = ''3''"
  by code_simp+

lemma plan3_events:
  "length plan3 = 3"
  "plan3 ! 0 = mk_event ''e1'' commit ''first''"
  "plan3 ! Suc 0 = mk_event ''e2'' merge ''second''"
  "plan3 ! Suc (Suc 0) = mk_event ''e3'' tag ''third''"
  by (simp_all add: plan3_def)

lemma plan_merges_events:
  "length plan_merges = 2"
  "plan_merges ! 0 = mk_event ''m1'' merge ''one''"
  "plan_merges ! Suc 0 = mk_event ''m2'' merge ''two''"
  by (simp_all add: plan_merges_def)

lemma mk_event_fields:
  "type_ev (mk_event i t ttl) = t"
  "title (mk_event i t ttl) = ttl"
  by (simp_all add: mk_event_def)

lemma cfg_alice_fields:
  "githubToken cfg_alice = ''ghp_alice_secret''"
  "targetRepo cfg_alice = ''demo''"
  "username cfg_alice = ''alice''"
  by (simp_all add: cfg_alice_def)

lemma remote_demo_answers:
  "initGitHub remote_demo token repo user w = (if repo = ''missing'' then Inl ''Not Found'' else Inr (), w + 1)"
  "executeGitEvent remote_demo event config w =
     (if type_ev event = merge then Inl ''Merge conflict'' else Inr (''Done: '' @ title event), w + 1)"
  "setTimeout remote_demo ms w = w + ms"
  by (simp_all add: remote_demo_def)

lemma remote_rate_limited_answers:
  "initGitHub remote_rate_limited token repo user (now, free) = (Inr (), (now + 1, free))"
  "executeGitEvent remote_rate_limited event config (now, free) =
     (if now < free then Inl ''rate limited''
      else if type_ev event = merge then Inl ''Merge conflict''
      else Inr (''Done: '' @ title event), (now + 1, now + 800))"
  "setTimeout remote_rate_limited ms (now, free) = (now + ms, free)"
  by (simp_all add: remote_rate_limited_def)

text \<open>The run of the three events of \<open>plan3\<close>, the second of which fails.\<close>

lemma run_plan3:
  "handleWeave remote_demo cfg_alice plan3 0 =
    ([SetPhase Weaving, SetLogs [], SetProgress 0, SetIsWeaving True,
      addLog remote_demo 0 ''Initializing GitHub connection for alice/demo...'' info,
      InitGitHub ''ghp_alice_secret'' ''demo'' ''alice'' 0 (Inr ()) 1,
      addLog remote_demo 1 ''Connected securely. Starting sequence of 3 events.'' success,
      addLog remote_demo 1 ''Processing [COMMIT] first...'' info,
      ExecuteGitEvent (plan3 ! 0) cfg_alice 1 (Inr ''Done: first'') 2,
      addLog remote_demo 2 ''Done: first'' success,
      SetProgress (2345624805922133 / 70368744177664),
      Timeout 800 2 802,
      addLog remote_demo 802 ''Processing [MERGE] second...'' info,
      ExecuteGitEvent (plan3 ! 1) cfg_alice 802 (Inl ''Merge conflict'') 803,
      addLog remote_demo 803 ''Failed: Merge conflict'' error,
      SetProgress (2345624805922133 / 35184372088832),
      Timeout 800 803 1603,
      addLog remote_demo 1603 ''Processing [TAG] third...'' info,
      ExecuteGitEvent (plan3 ! 2) cfg_alice 1603 (Inr ''Done: third'') 1604,
      addLog remote_demo 1604 ''Done: third'' success,
      SetProgress 100,
      Timeout 800 1604 2404,
      addLog remote_demo 2404 ''All events processed successfully.'' success,
      SetIsWeaving False, SetProgress 100, SetPhase Complete], 2404)"
  by (simp add: handleWeave_def Let_def weave_events_unfold weave_events_done plan3_events
        mk_event_fields cfg_alice_fields remote_demo_answers upper_kinds lengths_shown
        percent_thirds numeral_2_eq_2)

text \<open>The same run on the rate limited remote.\<close>

lemma run_plan3_rate_limited:
  "handleWeave remote_rate_limited cfg_alice plan3 (0, 0) =
    ([SetPhase Weaving, SetLogs [], SetProgress 0, SetIsWeaving True,
      addLog remote_rate_limited (0, 0) ''Initializing GitHub connection for alice/demo...'' info,
      InitGitHub ''ghp_alice_secret'' ''demo'' ''alice'' (0, 0) (Inr ()) (1, 0),
      addLog remote_rate_limited (1, 0) ''Connected securely. Starting sequence of 3 events.'' success,
      addLog remote_rate_limited (1, 0) ''Processing [COMMIT] first...'' info,
      ExecuteGitEvent (plan3 ! 0) cfg_alice (1, 0) (Inr ''Done: first'') (2, 801),
      addLog remote_rate_limited (2, 801) ''Done: first'' success,
      SetProgress (2345624805922133 / 70368744177664),
      Timeout 800 (2, 801) (802, 801),
      addLog remote_rate_limited (802, 801) ''Processing [MERGE] second...'' info,
      ExecuteGitEvent (plan3 ! 1) cfg_alice (802, 801) (Inl ''Merge conflict'') (803, 1602),
      addLog remote_rate_limited (803, 1602) ''Failed: Merge conflict'' error,
      SetProgress (2345624805922133 / 35184372088832),
      Timeout 800 (803, 1602) (1603, 1602),
      addLog remote_rate_limited (1603, 1602) ''Processing [TAG] third...'' info,
      ExecuteGitEvent (plan3 ! 2) cfg_alice (1603, 1602) (Inr ''Done: third'') (1604, 2403),
      addLog remote_rate_limited (1604, 2403) ''Done: third'' success,
      SetProgress 100,
      Timeout 800 (1604, 2403) (2404, 2403),
      addLog remote_rate_limited (2404, 2403) ''All events processed successfully.'' success,
      SetIsWeaving False, SetProgress 100, SetPhase Complete], (2404, 2403))"
  by (simp add: handleWeave_def Let_def weave_events_unfold weave_events_done plan3_events
        mk_event_fields cfg_alice_fields remote_rate_limited_answers upper_kinds lengths_shown
        percent_thirds numeral_2_eq_2)

text \<open>The run of the two merge events of \<open>plan_merges\<close>, which both fail.\<close>

lemma run_plan_merges:
  "handleWeave remote_demo cfg_alice plan_merges 0 =
    ([SetPhase Weaving, SetLogs [], SetProgress 0, SetIsWeaving True,
      addLog remote_demo 0 ''Initializing GitHub connection for alice/demo...'' info,
      InitGitHub ''ghp_alice_secret'' ''demo'' ''alice'' 0 (Inr ()) 1,
      addLog remote_demo 1 ''Connected securely. Starting sequence of 2 events.'' success,
      addLog remote_demo 1 ''Processing [MERGE] one...'' info,
      ExecuteGitEvent (plan_merges ! 0) cfg_alice 1 (Inl ''Merge conflict'') 2,
      addLog remote_demo 2 ''Failed: Merge conflict'' error,
      SetProgress 50,
      Timeout 800 2 802,
      addLog remote_demo 802 ''Processing [MERGE] two...'' info,
      ExecuteGitEvent (plan_merges ! 1) cfg_alice 802 (Inl ''Merge conflict'') 803,
      addLog remote_demo 803 ''Failed: Merge conflict'' error,
      SetProgress 100,
      Timeout 800 803 1603,
      addLog remote_demo 1603 ''All events processed successfully.'' success,
      SetIsWeaving False, SetProgress 100, SetPhase Complete], 1603)"
  by (simp add: handleWeave_def Let_def weave_events_unfold weave_events_done plan_merges_events
        mk_event_fields cfg_alice_fields remote_demo_answers upper_kinds lengths_shown
        percent_halves numeral_2_eq_2)

section \<open>Claims about handleWeave\<close>



text \<open>
  C4. When the connection step fails, no event is executed, the log holds the opening
  line and exactly one entry of error severity, the critical error with the reason, and
  the state ends with progress 100 in phase \<open>complete\<close>.
\<close>

theorem connection_failure_aborts:
  assumes "fst (initGitHub env (githubToken config) (targetRepo config) (username config) w) = Inl m"
  shows "calls (fst (handleWeave env config plan w)) = []
       \<and> log_lines (fst (handleWeave env config plan w))
           = [(info, ''Initializing GitHub connection for '' @ username config @ ''/'' @ targetRepo config @ ''...''),
              (error, ''Critical Error: '' @ m)]
       \<and> length (filter (\<lambda>l. fst l = error) (log_lines (fst (handleWeave env config plan w)))) = 1
       \<and> map entry_line (logs (run_effects s (fst (handleWeave env config plan w))))
           = log_lines (fst (handleWeave env config plan w))
       \<and> progress (run_effects s (fst (handleWeave env config plan w))) = 100
       \<and> phase (run_effects s (fst (handleWeave env config plan w))) = Complete"
proof -
  obtain w1 where c: "initGitHub env (githubToken config) (targetRepo config) (username config) w = (Inl m, w1)"
    using assms by (cases "initGitHub env (githubToken config) (targetRepo config) (username config) w") simp
  have "calls (fst (handleWeave env config plan w)) = []"
    by (simp add: handleWeave_refused[OF c] addLog_def)
  moreover have "log_lines (fst (handleWeave env config plan w))
           = [(info, ''Initializing GitHub connection for '' @ username config @ ''/'' @ targetRepo config @ ''...''),
              (error, ''Critical Error: '' @ m)]"
    by (simp add: handleWeave_refused[OF c] addLog_def log_lines_def entry_line_def)
  ultimately show ?thesis
    using final_state_handleWeave[of s env config plan w]
    by (simp add: log_lines_def)
qed

theorem connection_failure_aborts_witness:
  "fst (initGitHub remote_demo (githubToken (cfg_alice\<lparr>targetRepo := ''missing''\<rparr>))
          (targetRepo (cfg_alice\<lparr>targetRepo := ''missing''\<rparr>))
          (username (cfg_alice\<lparr>targetRepo := ''missing''\<rparr>)) 0) = Inl ''Not Found''
   \<and> calls (fst (handleWeave remote_demo (cfg_alice\<lparr>targetRepo := ''missing''\<rparr>) plan3 0)) = []
   \<and> log_lines (fst (handleWeave remote_demo (cfg_alice\<lparr>targetRepo := ''missing''\<rparr>) plan3 0))
       = [(info, ''Initializing GitHub connection for alice/missing...''),
          (error, ''Critical Error: Not Found'')]
   \<and> progress (run_effects initial_state
         (fst (handleWeave remote_demo (cfg_alice\<lparr>targetRepo := ''missing''\<rparr>) plan3 0))) = 100"
proof -
  have h: "fst (initGitHub remote_demo (githubToken (cfg_alice\<lparr>targetRepo := ''missing''\<rparr>))
          (targetRepo (cfg_alice\<lparr>targetRepo := ''missing''\<rparr>))
          (username (cfg_alice\<lparr>targetRepo := ''missing''\<rparr>)) 0) = Inl ''Not Found''"
    by code_simp
  have u: "username (cfg_alice\<lparr>targetRepo := ''missing''\<rparr>) = ''alice''"
    and t: "targetRepo (cfg_alice\<lparr>targetRepo := ''missing''\<rparr>) = ''missing''"
    by (simp_all add: cfg_alice_def)
  from connection_failure_aborts[OF h, of plan3 initial_state] h show ?thesis
    by (simp add: u t)
qed


text \<open>
  C5. Progress is set to 0 when the run starts, before the connection. When the
  connection succeeds, each event \<open>i\<close> of the plan is attempted and then, whatever the
  outcome of the attempt, progress is set once to \<open>(i+1)/n * 100\<close> as the runtime computes
  it in doubles, before the delay and the next attempt; the \<open>finally\<close> block then sets
  100. When the connection fails the only updates are 0 and 100. The sequence of updates
  never decreases, and the state ends with progress 100 on both paths.
\<close>

theorem progress_updates_of_run:
  "marks (fst (handleWeave env config plan w))
     = [Progress 0, Call (Connect (githubToken config) (targetRepo config) (username config))]
       @ (case fst (initGitHub env (githubToken config) (targetRepo config) (username config) w) of
            Inr u \<Rightarrow> concat (map (\<lambda>i. [Call (Execute (plan ! i) config),
                                       Progress (percent (i + 1) (length plan)),
                                       Call (Delay 800)]) [0 ..< length plan])
          | Inl m \<Rightarrow> [])
       @ [Progress 100]
   \<and> progress_updates (fst (handleWeave env config plan w))
     = (case fst (initGitHub env (githubToken config) (targetRepo config) (username config) w) of
          Inr u \<Rightarrow> [0] @ map (\<lambda>i. percent (i + 1) (length plan)) [0 ..< length plan] @ [100]
        | Inl m \<Rightarrow> [0, 100])
   \<and> sorted (progress_updates (fst (handleWeave env config plan w)))
   \<and> last (progress_updates (fst (handleWeave env config plan w))) = 100
   \<and> progress (run_effects s (fst (handleWeave env config plan w))) = 100"
proof -
  obtain conn w1 where c: "initGitHub env (githubToken config) (targetRepo config) (username config) w = (conn, w1)"
    by (cases "initGitHub env (githubToken config) (targetRepo config) (username config) w")
  have fin: "progress (run_effects s (fst (handleWeave env config plan w))) = 100"
    using final_state_handleWeave[of s env config plan w] by simp
  show ?thesis
  proof (cases conn)
    case (Inl m)
    have "progress_updates (fst (handleWeave env config plan w)) = [0, 100]"
      by (simp add: handleWeave_refused[OF c[unfolded Inl]] addLog_def)
    moreover have "marks (fst (handleWeave env config plan w))
        = [Progress 0, Call (Connect (githubToken config) (targetRepo config) (username config)), Progress 100]"
      by (simp add: handleWeave_refused[OF c[unfolded Inl]] addLog_def)
    ultimately show ?thesis using fin by (simp add: c Inl)
  next
    case (Inr u)
    let ?steps = "map (\<lambda>i. percent (i + 1) (length plan)) [0 ..< length plan]"
    have p: "progress_updates (fst (handleWeave env config plan w)) = [0] @ ?steps @ [100]"
      by (simp add: handleWeave_connected[OF c[unfolded Inr]] progress_updates_append
            progress_weave_events addLog_def)
    have m: "marks (fst (handleWeave env config plan w))
        = [Progress 0, Call (Connect (githubToken config) (targetRepo config) (username config))]
          @ concat (map (\<lambda>i. [Call (Execute (plan ! i) config),
                                Progress (percent (i + 1) (length plan)),
                                Call (Delay 800)]) [0 ..< length plan])
          @ [Progress 100]"
      by (simp add: handleWeave_connected[OF c[unfolded Inr]] marks_append
            marks_weave_events addLog_def)
    have b: "\<forall>x \<in> set ?steps. 0 \<le> x \<and> x \<le> 100"
      using progress_steps_bounds[of _ "length plan" 0] by blast
    have "sorted ([0] @ ?steps @ [100])"
      using b sorted_progress_steps[of "length plan" 0]
      by (simp add: sorted_append del: upt_Suc map_map)
    with p m fin show ?thesis by (simp add: c Inr del: upt_Suc)
  qed
qed

text \<open>
  The plan of three events whose second event throws: a third of 100 and two thirds of
  100 in doubles, which print as 33.33333333333333 and 66.66666666666666.
\<close>

theorem progress_updates_of_run_witness:
  "marks (fst (handleWeave remote_demo cfg_alice plan3 0))
     = [Progress 0, Call (Connect ''ghp_alice_secret'' ''demo'' ''alice''),
        Call (Execute (plan3 ! 0) cfg_alice), Progress (2345624805922133 / 70368744177664), Call (Delay 800),
        Call (Execute (plan3 ! 1) cfg_alice), Progress (2345624805922133 / 35184372088832), Call (Delay 800),
        Call (Execute (plan3 ! 2) cfg_alice), Progress 100, Call (Delay 800),
        Progress 100]
   \<and> map (\<lambda>x. snd (snd x)) (calls (fst (handleWeave remote_demo cfg_alice plan3 0)))
       = [Inr ''Done: first'', Inl ''Merge conflict'', Inr ''Done: third'']
   \<and> progress_updates (fst (handleWeave remote_demo cfg_alice plan3 0))
       = [0, 2345624805922133 / 70368744177664, 2345624805922133 / 35184372088832, 100, 100]
   \<and> sorted (progress_updates (fst (handleWeave remote_demo cfg_alice plan3 0)))
   \<and> progress (run_effects initial_state (fst (handleWeave remote_demo cfg_alice plan3 0))) = 100
   \<and> progress_updates (fst (handleWeave remote_demo (cfg_alice\<lparr>targetRepo := ''missing''\<rparr>) plan3 0)) = [0, 100]"
proof -
  have m: "marks (fst (handleWeave remote_demo cfg_alice plan3 0))
     = [Progress 0, Call (Connect ''ghp_alice_secret'' ''demo'' ''alice''),
        Call (Execute (plan3 ! 0) cfg_alice), Progress (2345624805922133 / 70368744177664), Call (Delay 800),
        Call (Execute (plan3 ! 1) cfg_alice), Progress (2345624805922133 / 35184372088832), Call (Delay 800),
        Call (Execute (plan3 ! 2) cfg_alice), Progress 100, Call (Delay 800),
        Progress 100]"
    by (simp add: run_plan3 addLog_def)
  have r: "map (\<lambda>x. snd (snd x)) (calls (fst (handleWeave remote_demo cfg_alice plan3 0)))
       = [Inr ''Done: first'', Inl ''Merge conflict'', Inr ''Done: third'']"
    by (simp add: run_plan3 addLog_def)
  have a: "progress_updates (fst (handleWeave remote_demo cfg_alice plan3 0))
       = [0, 2345624805922133 / 70368744177664, 2345624805922133 / 35184372088832, 100, 100]"
    by (simp add: run_plan3 addLog_def)
  have b: "progress_updates (fst (handleWeave remote_demo (cfg_alice\<lparr>targetRepo := ''missing''\<rparr>) plan3 0)) = [0, 100]"
    by code_simp
  from progress_updates_of_run[of remote_demo cfg_alice plan3 0 initial_state] m r a b show ?thesis
    by blast
qed

text \<open>
  C6, as amended. For an empty plan and a successful connection the run ends in phase
  \<open>complete\<close> with progress 100, no event is executed, and the log holds exactly three
  entries: the opening line, the connection success line announcing 0 events, and the
  closing line; there is no per-event entry.
\<close>

theorem empty_plan_run:
  assumes "fst (initGitHub env (githubToken config) (targetRepo config) (username config) w) = Inr u"
  shows "phase (run_effects s (fst (handleWeave env config [] w))) = Complete
       \<and> progress (run_effects s (fst (handleWeave env config [] w))) = 100
       \<and> calls (fst (handleWeave env config [] w)) = []
       \<and> map entry_line (logs (run_effects s (fst (handleWeave env config [] w))))
           = [(info, ''Initializing GitHub connection for '' @ username config @ ''/'' @ targetRepo config @ ''...''),
              (success, ''Connected securely. Starting sequence of 0 events.''),
              (success, ''All events processed successfully.'')]"
proof -
  obtain w1 where c: "initGitHub env (githubToken config) (targetRepo config) (username config) w = (Inr u, w1)"
    using assms by (cases "initGitHub env (githubToken config) (targetRepo config) (username config) w") simp
  have z: "string_of_nat 0 = ''0''"
    by code_simp
  have e: "fst (handleWeave env config [] w) =
     [SetPhase Weaving, SetLogs [], SetProgress 0, SetIsWeaving True,
      addLog env w (''Initializing GitHub connection for '' @ username config @ ''/''
                    @ targetRepo config @ ''...'') info,
      InitGitHub (githubToken config) (targetRepo config) (username config) w (Inr u) w1,
      addLog env w1 ''Connected securely. Starting sequence of 0 events.'' success,
      addLog env w1 ''All events processed successfully.'' success,
      SetIsWeaving False, SetProgress 100, SetPhase Complete]"
    by (simp add: handleWeave_connected[OF c] weave_events_done z)
  show ?thesis
    by (simp add: e run_effects_Cons run_effects_Nil addLog_def entry_line_def)
qed

theorem empty_plan_run_witness:
  "fst (initGitHub remote_demo (githubToken cfg_alice) (targetRepo cfg_alice) (username cfg_alice) 0) = Inr ()
   \<and> phase (run_effects initial_state (fst (handleWeave remote_demo cfg_alice [] 0))) = Complete
   \<and> progress (run_effects initial_state (fst (handleWeave remote_demo cfg_alice [] 0))) = 100
   \<and> map entry_line (logs (run_effects initial_state (fst (handleWeave remote_demo cfg_alice [] 0))))
       = [(info, ''Initializing GitHub connection for alice/demo...''),
          (success, ''Connected securely. Starting sequence of 0 events.''),
          (success, ''All events processed successfully.'')]"
proof -
  have h: "fst (initGitHub remote_demo (githubToken cfg_alice) (targetRepo cfg_alice) (username cfg_alice) 0) = Inr ()"
    by code_simp
  have u: "username cfg_alice = ''alice''" and t: "targetRepo cfg_alice = ''demo''"
    by (simp_all add: cfg_alice_def)
  from empty_plan_run[OF h, of initial_state] h show ?thesis
    by (simp add: u t)
qed

text \<open>
  C6 as the specification words it fails: the log of that run is not the single
  connection success entry.
\<close>

theorem empty_plan_log_counterexample:
  "fst (initGitHub remote_demo (githubToken cfg_alice) (targetRepo cfg_alice) (username cfg_alice) 0) = Inr ()
   \<and> map entry_line (logs (run_effects initial_state (fst (handleWeave remote_demo cfg_alice [] 0))))
       \<noteq> [(success, ''Connected securely. Starting sequence of 0 events.'')]
   \<and> length (logs (run_effects initial_state (fst (handleWeave remote_demo cfg_alice [] 0)))) = 3"
  by code_simp

text \<open>
  C8. What a run awaits is, in order, the connection and then, for each event of the plan
  in plan order, its remote execution followed by the pacing delay of 800 ms, after a
  failed execution as after a successful one. The connection is started in the world the
  run begins in, and every later awaited call is started in the world that the awaited
  call before it left: an execution starts where the delay after the previous event
  ended, and that delay starts where the previous execution settled. Each recorded
  outcome is the answer of the collaborator, and each delay the passing of the timer, in
  the world the call was started in; the run returns the world its last awaited call left.
\<close>

theorem sequential_paced_execution:
  "awaited_calls (fst (handleWeave env config plan w))
     = Connect (githubToken config) (targetRepo config) (username config)
       # (case fst (initGitHub env (githubToken config) (targetRepo config) (username config) w) of
            Inr u \<Rightarrow> concat (map (\<lambda>e. [Execute e config, Delay 800]) plan)
          | Inl m \<Rightarrow> [])
   \<and> chained w (fst (handleWeave env config plan w))
   \<and> list_all (answered env) (fst (handleWeave env config plan w))
   \<and> snd (handleWeave env config plan w) = world_after w (fst (handleWeave env config plan w))"
proof -
  obtain conn w1 where c: "initGitHub env (githubToken config) (targetRepo config) (username config) w = (conn, w1)"
    by (cases "initGitHub env (githubToken config) (targetRepo config) (username config) w")
  show ?thesis
  proof (cases conn)
    case (Inl m)
    have s: "snd (handleWeave env config plan w) = w1"
      using c by (simp add: handleWeave_def Let_def Inl)
    show ?thesis
      by (simp add: handleWeave_refused[OF c[unfolded Inl]] addLog_def c Inl s)
  next
    case (Inr u)
    have s: "snd (handleWeave env config plan w) = snd (weave_events env config plan 0 w1)"
      using c by (simp add: handleWeave_def Let_def Inr case_prod_beta)
    have l: "chained w1 (fst (weave_events env config plan 0 w1))"
      "list_all (answered env) (fst (weave_events env config plan 0 w1))"
      "world_after w1 (fst (weave_events env config plan 0 w1)) = snd (weave_events env config plan 0 w1)"
      using chained_weave_events[of w1 env config plan 0] by simp_all
    show ?thesis
      using l awaited_calls_weave_events[of env config plan 0 w1]
      by (simp add: handleWeave_connected[OF c[unfolded Inr]] addLog_def c Inr s
            awaited_calls_append chained_append world_after_append)
  qed
qed

text \<open>
  The plan of three events on the rate limited remote. The second execution is started
  at 802 ms, after the delay that began when the first one settled at 2 ms; it fails, and
  the third is started at 1603 ms, after the delay that followed the failure, so that it
  is not refused.
\<close>

theorem sequential_paced_execution_witness:
  "awaited (fst (handleWeave remote_rate_limited cfg_alice plan3 (0, 0)))
     = [InitGitHub ''ghp_alice_secret'' ''demo'' ''alice'' (0, 0) (Inr ()) (1, 0),
        ExecuteGitEvent (plan3 ! 0) cfg_alice (1, 0) (Inr ''Done: first'') (2, 801),
        Timeout 800 (2, 801) (802, 801),
        ExecuteGitEvent (plan3 ! 1) cfg_alice (802, 801) (Inl ''Merge conflict'') (803, 1602),
        Timeout 800 (803, 1602) (1603, 1602),
        ExecuteGitEvent (plan3 ! 2) cfg_alice (1603, 1602) (Inr ''Done: third'') (1604, 2403),
        Timeout 800 (1604, 2403) (2404, 2403)]
   \<and> awaited_calls (fst (handleWeave remote_rate_limited cfg_alice plan3 (0, 0)))
     = [Connect ''ghp_alice_secret'' ''demo'' ''alice'',
        Execute (plan3 ! 0) cfg_alice, Delay 800,
        Execute (plan3 ! 1) cfg_alice, Delay 800,
        Execute (plan3 ! 2) cfg_alice, Delay 800]
   \<and> chained (0, 0) (fst (handleWeave remote_rate_limited cfg_alice plan3 (0, 0)))
   \<and> list_all (answered remote_rate_limited) (fst (handleWeave remote_rate_limited cfg_alice plan3 (0, 0)))
   \<and> snd (handleWeave remote_rate_limited cfg_alice plan3 (0, 0)) = (2404, 2403)"
proof -
  have a: "awaited (fst (handleWeave remote_rate_limited cfg_alice plan3 (0, 0)))
     = [InitGitHub ''ghp_alice_secret'' ''demo'' ''alice'' (0, 0) (Inr ()) (1, 0),
        ExecuteGitEvent (plan3 ! 0) cfg_alice (1, 0) (Inr ''Done: first'') (2, 801),
        Timeout 800 (2, 801) (802, 801),
        ExecuteGitEvent (plan3 ! 1) cfg_alice (802, 801) (Inl ''Merge conflict'') (803, 1602),
        Timeout 800 (803, 1602) (1603, 1602),
        ExecuteGitEvent (plan3 ! 2) cfg_alice (1603, 1602) (Inr ''Done: third'') (1604, 2403),
        Timeout 800 (1604, 2403) (2404, 2403)]"
    by (simp add: run_plan3_rate_limited addLog_def)
  have b: "awaited_calls (fst (handleWeave remote_rate_limited cfg_alice plan3 (0, 0)))
     = [Connect ''ghp_alice_secret'' ''demo'' ''alice'',
        Execute (plan3 ! 0) cfg_alice, Delay 800,
        Execute (plan3 ! 1) cfg_alice, Delay 800,
        Execute (plan3 ! 2) cfg_alice, Delay 800]"
    by (simp add: run_plan3_rate_limited addLog_def)
  have s: "snd (handleWeave remote_rate_limited cfg_alice plan3 (0, 0)) = (2404, 2403)"
    by (simp add: run_plan3_rate_limited)
  from sequential_paced_execution[of remote_rate_limited cfg_alice plan3 "(0, 0)"] a b s show ?thesis
    by blast
qed

text \<open>
  C9. The token is handed to the collaborators and to nothing else. The prompt rendered
  for the generator does not depend on it, and for collaborators whose outcomes are the
  same for both tokens, two runs that differ only in the token write the same log entries.
\<close>

theorem token_never_logged:
  assumes "\<And>w. initGitHub env t (targetRepo config) (username config) w
               = initGitHub env (githubToken config) (targetRepo config) (username config) w"
    and "\<And>e w. executeGitEvent env e (config\<lparr>githubToken := t\<rparr>) w = executeGitEvent env e config w"
  shows "renderPrompt (config\<lparr>githubToken := t\<rparr>) = renderPrompt config
       \<and> log_entries (fst (handleWeave env (config\<lparr>githubToken := t\<rparr>) plan w))
           = log_entries (fst (handleWeave env config plan w))
       \<and> logs (run_effects s (fst (handleWeave env (config\<lparr>githubToken := t\<rparr>) plan w)))
           = logs (run_effects s (fst (handleWeave env config plan w)))"
proof -
  let ?config' = "config\<lparr>githubToken := t\<rparr>"
  obtain conn w1 where c: "initGitHub env (githubToken config) (targetRepo config) (username config) w = (conn, w1)"
    by (cases "initGitHub env (githubToken config) (targetRepo config) (username config) w")
  then have c': "initGitHub env (githubToken ?config') (targetRepo ?config') (username ?config') w = (conn, w1)"
    using assms(1) by simp
  have p: "renderPrompt ?config' = renderPrompt config"
    by (simp add: renderPrompt_def)
  have l: "log_entries (fst (handleWeave env ?config' plan w)) = log_entries (fst (handleWeave env config plan w))"
  proof (cases conn)
    case (Inl m)
    show ?thesis
      by (simp add: handleWeave_refused[OF c[unfolded Inl]] handleWeave_refused[OF c'[unfolded Inl]] addLog_def)
  next
    case (Inr u)
    show ?thesis
      using weave_events_token[where env = env and config = config and t = t and plan = plan and i = 0 and w = w1, OF assms(2)]
      by (simp add: handleWeave_connected[OF c[unfolded Inr]] handleWeave_connected[OF c'[unfolded Inr]]
            addLog_def log_entries_append)
  qed
  show ?thesis
    using p l final_state_handleWeave[of s env ?config' plan w] final_state_handleWeave[of s env config plan w]
    by simp
qed

theorem token_never_logged_witness:
  "renderPrompt (cfg_alice\<lparr>githubToken := ''ghp_other_token''\<rparr>) = renderPrompt cfg_alice
   \<and> log_entries (fst (handleWeave remote_demo (cfg_alice\<lparr>githubToken := ''ghp_other_token''\<rparr>) plan3 0))
       = log_entries (fst (handleWeave remote_demo cfg_alice plan3 0))
   \<and> logs (run_effects initial_state (fst (handleWeave remote_demo (cfg_alice\<lparr>githubToken := ''ghp_other_token''\<rparr>) plan3 0)))
       = logs (run_effects initial_state (fst (handleWeave remote_demo cfg_alice plan3 0)))"
proof -
  have a: "initGitHub remote_demo ''ghp_other_token'' (targetRepo cfg_alice) (username cfg_alice) w
         = initGitHub remote_demo (githubToken cfg_alice) (targetRepo cfg_alice) (username cfg_alice) w" for w
    by (simp add: remote_demo_def)
  have b: "executeGitEvent remote_demo e (cfg_alice\<lparr>githubToken := ''ghp_other_token''\<rparr>) w
         = executeGitEvent remote_demo e cfg_alice w" for e w
    by (simp add: remote_demo_def)
  show ?thesis
    by (rule token_never_logged[of remote_demo "''ghp_other_token''" cfg_alice, OF a b])
qed

text \<open>
  C10. When the connection succeeds the last entry of the log is
  \<open>All events processed successfully.\<close> at success severity, whatever the outcomes of
  the events were.
\<close>

theorem terminal_entry_ignores_outcomes:
  assumes "fst (initGitHub env (githubToken config) (targetRepo config) (username config) w) = Inr u"
  shows "logs (run_effects s (fst (handleWeave env config plan w))) \<noteq> []
       \<and> entry_line (last (logs (run_effects s (fst (handleWeave env config plan w)))))
           = (success, ''All events processed successfully.'')"
proof -
  obtain w1 where c: "initGitHub env (githubToken config) (targetRepo config) (username config) w = (Inr u, w1)"
    using assms by (cases "initGitHub env (githubToken config) (targetRepo config) (username config) w") simp
  have "log_entries (fst (handleWeave env config plan w)) \<noteq> []
      \<and> entry_line (last (log_entries (fst (handleWeave env config plan w))))
          = (success, ''All events processed successfully.'')"
    by (simp add: handleWeave_connected[OF c] log_entries_append addLog_def entry_line_def)
  then show ?thesis
    using final_state_handleWeave[of s env config plan w] by simp
qed

text \<open>A plan whose every event fails still ends with the success entry.\<close>

theorem terminal_entry_ignores_outcomes_witness:
  "fst (initGitHub remote_demo (githubToken cfg_alice) (targetRepo cfg_alice) (username cfg_alice) 0) = Inr ()
   \<and> map (\<lambda>x. snd (snd x)) (calls (fst (handleWeave remote_demo cfg_alice plan_merges 0)))
       = [Inl ''Merge conflict'', Inl ''Merge conflict'']
   \<and> logs (run_effects initial_state (fst (handleWeave remote_demo cfg_alice plan_merges 0))) \<noteq> []
   \<and> entry_line (last (logs (run_effects initial_state (fst (handleWeave remote_demo cfg_alice plan_merges 0)))))
       = (success, ''All events processed successfully.'')"
proof -
  have h: "fst (initGitHub remote_demo (githubToken cfg_alice) (targetRepo cfg_alice) (username cfg_alice) 0) = Inr ()"
    by (simp add: remote_demo_answers cfg_alice_fields)
  have r: "map (\<lambda>x. snd (snd x)) (calls (fst (handleWeave remote_demo cfg_alice plan_merges 0)))
       = [Inl ''Merge conflict'', Inl ''Merge conflict'']"
    by (simp add: run_plan_merges addLog_def)
  from terminal_entry_ignores_outcomes[OF h, of initial_state plan_merges] h r show ?thesis
    by blast
qed


section \<open>Claims about generateSimulationPlan\<close>

lemma try_generate_failed:
  "generation_failed rt (generateContent prompt) \<Longrightarrow> \<exists>err. try_generate rt generateContent prompt = Inl err"
  by (auto simp: generation_failed_def try_generate_def Let_def split: sum.splits option.splits)

lemma generateSimulationPlan_failed:
  "generation_failed rt (generateContent (renderPrompt config)) \<Longrightarrow>
     generateSimulationPlan rt generateContent config = catch_fallback rt config"
  using try_generate_failed[of rt generateContent "renderPrompt config"]
  by (auto simp: generateSimulationPlan_def)

lemma generateSimulationPlan_parsed:
  "generateContent (renderPrompt config) = Inr r \<Longrightarrow> jsonStr_of r \<noteq> [] \<Longrightarrow>
     JSON_parse rt (jsonStr_of r) = Some plan \<Longrightarrow>
     generateSimulationPlan rt generateContent config = Inr plan"
  by (simp add: generateSimulationPlan_def try_generate_def Let_def)

lemma catch_fallback_valid_start:
  "Date_parse rt (startDate config) = Some t \<Longrightarrow> - 8640000000000000 \<le> t \<Longrightarrow>
     t + 86400000 \<le> 8640000000000000 \<Longrightarrow>
     catch_fallback rt config = Inr (fallback_events config (isoString (t + 86400000)))"
proof -
  assume p: "Date_parse rt (startDate config) = Some t"
    and lo: "- 8640000000000000 \<le> t" and hi: "t + 86400000 \<le> 8640000000000000"
  from lo hi have a: "\<not> 8640000000000000 < \<bar>t\<bar>" by linarith
  from lo hi have b: "\<not> 8640000000000000 < \<bar>t + 86400000\<bar>" by linarith
  show ?thesis
    using a b by (simp add: catch_fallback_def nextDay_of_def TimeClip_def toISOString_def Let_def p)
qed

text \<open>When \<open>Date.parse\<close> of the start date is NaN, the \<open>catch\<close> block itself throws.\<close>

lemma catch_fallback_invalid_start:
  "Date_parse rt (startDate config) = None \<Longrightarrow>
     catch_fallback rt config = Inl (RangeError ''Invalid time value'')"
  by (simp add: catch_fallback_def nextDay_of_def TimeClip_def toISOString_def Let_def)

text \<open>
  C1. The claim that the function never fails outwardly does not hold of the code for a
  configuration whose start date is empty, as a cleared date input leaves it: the
  generator throws, returns an empty response or returns text that does not parse, the
  \<open>catch\<close> block builds the fallback plan, and \<open>toISOString\<close> on the invalid date
  throws a RangeError that nothing catches, so the promise is rejected.
\<close>

theorem fallback_rejects_on_empty_start_date:
  "generateSimulationPlan rt_demo gen_throws (cfg_alice\<lparr>startDate := []\<rparr>)
     = Inl (RangeError ''Invalid time value'')
   \<and> generateSimulationPlan rt_demo (gen_text []) (cfg_alice\<lparr>startDate := []\<rparr>)
     = Inl (RangeError ''Invalid time value'')
   \<and> generateSimulationPlan rt_demo (gen_text ''not json'') (cfg_alice\<lparr>startDate := []\<rparr>)
     = Inl (RangeError ''Invalid time value'')"
  by code_simp

text \<open>
  C2, as amended. For a configuration whose start date parses to a time value that, with
  one day added, stays in the range of dates: when the generator returns a text that is
  not empty once the code fences are removed and it is trimmed, and that parses, the
  result is the parsed plan as it is, whatever its length and the dates of its events;
  in every other case the result is the fixed fallback plan of two events.
\<close>

theorem plan_verbatim_or_fallback:
  assumes "Date_parse rt (startDate config) = Some t"
    and "- 8640000000000000 \<le> t" and "t + 86400000 \<le> 8640000000000000"
  shows "generateSimulationPlan rt generateContent config =
     (case generateContent (renderPrompt config) of
        Inl m \<Rightarrow> Inr (fallback_events config (isoString (t + 86400000)))
      | Inr r \<Rightarrow>
          if jsonStr_of r = [] then Inr (fallback_events config (isoString (t + 86400000)))
          else (case JSON_parse rt (jsonStr_of r) of
                  None \<Rightarrow> Inr (fallback_events config (isoString (t + 86400000)))
                | Some plan \<Rightarrow> Inr plan))"
proof (cases "generation_failed rt (generateContent (renderPrompt config))")
  case True
  then have "generateSimulationPlan rt generateContent config
      = Inr (fallback_events config (isoString (t + 86400000)))"
    using catch_fallback_valid_start[OF assms] by (simp add: generateSimulationPlan_failed)
  with True show ?thesis
    by (auto simp: generation_failed_def split: sum.splits option.splits)
next
  case False
  then obtain r plan where "generateContent (renderPrompt config) = Inr r" "jsonStr_of r \<noteq> []"
      "JSON_parse rt (jsonStr_of r) = Some plan"
    by (auto simp: generation_failed_def split: sum.splits)
  then show ?thesis
    by (simp add: generateSimulationPlan_parsed)
qed

theorem plan_verbatim_or_fallback_witness:
  "Date_parse rt_demo (startDate cfg_alice) = Some 1704067200000
   \<and> generateSimulationPlan rt_demo (gen_text fenced_old_event) cfg_alice = Inr [old_event]
   \<and> generateSimulationPlan rt_demo (gen_text fenced_nothing) cfg_alice
       = Inr (fallback_events cfg_alice ''2024-01-02T00:00:00.000Z'')"
proof -
  have d: "Date_parse rt_demo (startDate cfg_alice) = Some 1704067200000"
    by code_simp
  have lo: "- 8640000000000000 \<le> (1704067200000 :: int)"
    and hi: "(1704067200000 :: int) + 86400000 \<le> 8640000000000000"
    by simp_all
  have i: "isoString (1704067200000 + 86400000) = ''2024-01-02T00:00:00.000Z''"
    by code_simp
  have j1: "jsonStr_of (Some fenced_old_event) = old_event_json"
    by code_simp
  have j2: "jsonStr_of (Some fenced_nothing) = []"
    by code_simp
  have p: "JSON_parse rt_demo old_event_json = Some [old_event]"
    by code_simp
  have n: "old_event_json \<noteq> []"
    by code_simp
  have a: "generateSimulationPlan rt_demo (gen_text fenced_old_event) cfg_alice = Inr [old_event]"
    using plan_verbatim_or_fallback[OF d lo hi, of "gen_text fenced_old_event"] n
    by (simp only: gen_text_def sum.case j1 p if_False option.case)
  have b: "generateSimulationPlan rt_demo (gen_text fenced_nothing) cfg_alice
       = Inr (fallback_events cfg_alice ''2024-01-02T00:00:00.000Z'')"
    using plan_verbatim_or_fallback[OF d lo hi, of "gen_text fenced_nothing"]
    by (simp only: gen_text_def sum.case j2 i simp_thms if_True)
  from d a b show ?thesis by blast
qed

text \<open>
  C2 as the specification words it fails: a generator that succeeds with the empty
  array gives the empty plan, and one that succeeds with an event of 1999 gives that
  event, outside the window from 2024-01-01 to 2024-01-02.
\<close>

theorem generated_plan_unchecked_counterexample:
  "generateSimulationPlan rt_demo (gen_text ''[]'') cfg_alice = Inr []
   \<and> generateSimulationPlan rt_demo (gen_text old_event_json) cfg_alice = Inr [old_event]
   \<and> Date_parse rt_demo (date old_event) = Some 946598400000
   \<and> Date_parse rt_demo (startDate cfg_alice) = Some 1704067200000
   \<and> Date_parse rt_demo (endDate cfg_alice) = Some 1704153600000"
  by code_simp

text \<open>
  C7, as amended. The fallback does not depend on how generation failed: for a fixed
  runtime and configuration, two generators that both fail give the same result. For the
  configuration with start date 2024-01-01, end date 2024-01-02 and user alice it is the
  commit event \<open>evt_1\<close> of 2024-01-01 on \<open>main\<close> by alice followed by the branch event
  \<open>evt_2\<close> on \<open>feature/auth-system\<close> by alice, whose date is the text
  \<open>2024-01-02T00:00:00.000Z\<close> that \<open>toISOString\<close> prints.
\<close>

theorem fallback_deterministic:
  "(generation_failed rt (gen1 (renderPrompt config)) \<and> generation_failed rt (gen2 (renderPrompt config))
      \<longrightarrow> generateSimulationPlan rt gen1 config = generateSimulationPlan rt gen2 config)
   \<and> (generation_failed rt_demo (gen (renderPrompt cfg_alice))
      \<longrightarrow> generateSimulationPlan rt_demo gen cfg_alice =
          Inr [ \<lparr> id_ev = ''evt_1'', date = ''2024-01-01'', type_ev = commit,
                  title = ''feat: Initial project scaffold'',
                  description = ''Initialize project structure with standard boilerplate'',
                  branch = Some ''main'', filesChanged = Some 12, author = ''alice'',
                  tags = Some [''init''] \<rparr>,
                \<lparr> id_ev = ''evt_2'', date = ''2024-01-02T00:00:00.000Z'', type_ev = branch_t,
                  title = ''Create branch feature/auth-system'',
                  description = ''Branching for authentication system'',
                  branch = Some ''feature/auth-system'', filesChanged = Some 0, author = ''alice'',
                  tags = Some [''flow''] \<rparr> ])"
proof -
  have "catch_fallback rt_demo cfg_alice =
          Inr [ \<lparr> id_ev = ''evt_1'', date = ''2024-01-01'', type_ev = commit,
                  title = ''feat: Initial project scaffold'',
                  description = ''Initialize project structure with standard boilerplate'',
                  branch = Some ''main'', filesChanged = Some 12, author = ''alice'',
                  tags = Some [''init''] \<rparr>,
                \<lparr> id_ev = ''evt_2'', date = ''2024-01-02T00:00:00.000Z'', type_ev = branch_t,
                  title = ''Create branch feature/auth-system'',
                  description = ''Branching for authentication system'',
                  branch = Some ''feature/auth-system'', filesChanged = Some 0, author = ''alice'',
                  tags = Some [''flow''] \<rparr> ]"
    by code_simp
  then show ?thesis
    by (simp add: generateSimulationPlan_failed)
qed

theorem fallback_deterministic_witness:
  "generation_failed rt_demo (gen_throws (renderPrompt cfg_alice))
   \<and> generation_failed rt_demo (gen_text ''not json'' (renderPrompt cfg_alice))
   \<and> generateSimulationPlan rt_demo gen_throws cfg_alice
       = generateSimulationPlan rt_demo (gen_text ''not json'') cfg_alice
   \<and> generateSimulationPlan rt_demo gen_throws cfg_alice
       = Inr (fallback_events cfg_alice ''2024-01-02T00:00:00.000Z'')"
proof -
  have f1: "generation_failed rt_demo (gen_throws (renderPrompt cfg_alice))"
    by (simp add: generation_failed_def gen_throws_def)
  have f2: "generation_failed rt_demo (gen_text ''not json'' (renderPrompt cfg_alice))"
    unfolding gen_text_def by code_simp
  note t = fallback_deterministic[of rt_demo gen_throws cfg_alice "gen_text ''not json''" gen_throws]
  from t f1 f2 have e: "generateSimulationPlan rt_demo gen_throws cfg_alice
       = generateSimulationPlan rt_demo (gen_text ''not json'') cfg_alice"
    by blast
  have u: "username cfg_alice = ''alice''" and sd: "startDate cfg_alice = ''2024-01-01''"
    by (simp_all add: cfg_alice_def)
  from t f1 have v: "generateSimulationPlan rt_demo gen_throws cfg_alice
       = Inr (fallback_events cfg_alice ''2024-01-02T00:00:00.000Z'')"
    unfolding fallback_events_def u sd by blast
  from f1 f2 e v show ?thesis by blast
qed

text \<open>
  C7 as the specification words it fails: the date of the second event is not
  the text \<open>2024-01-02\<close>.
\<close>

theorem fallback_date_counterexample:
  "generation_failed rt_demo (gen_throws (renderPrompt cfg_alice))
   \<and> generateSimulationPlan rt_demo gen_throws cfg_alice
       = Inr (fallback_events cfg_alice ''2024-01-02T00:00:00.000Z'')
   \<and> generateSimulationPlan rt_demo gen_throws cfg_alice
       \<noteq> Inr (fallback_events cfg_alice ''2024-01-02'')"
proof -
  have f: "generation_failed rt_demo (gen_throws (renderPrompt cfg_alice))"
    by (simp add: generation_failed_def gen_throws_def)
  have a: "generateSimulationPlan rt_demo gen_throws cfg_alice
       = Inr (fallback_events cfg_alice ''2024-01-02T00:00:00.000Z'')"
    by code_simp
  have b: "fallback_events cfg_alice ''2024-01-02T00:00:00.000Z'' \<noteq> fallback_events cfg_alice ''2024-01-02''"
    by (simp add: fallback_events_def)
  from f a b show ?thesis by simp
qed


end
